theory Spec2Isabelle
  imports Complex_Main "HOL-Library.Sublist" "HOL-Library.AList"
begin

section \<open>Data model\<close>

text \<open>
  The issue record of the tracker library, with the fields the reporters read. Go's
  \<^verbatim>\<open>int\<close> is modelled as \<^typ>\<open>int\<close>: identifiers are only compared and copied, never
  computed with, so no wrap-around can occur. A Go slice is a list; \<^verbatim>\<open>nil\<close> and the empty
  slice are both \<open>[]\<close> (the code only takes \<^verbatim>\<open>len\<close>, ranges and appends).
\<close>

record Flag =
  Name :: string
  Status :: string

record ExternalBugType =
  Type :: string

record ExternalBug =
  Type :: ExternalBugType

record Bug =
  ID :: int
  AssignedTo :: string
  Classification :: string
  Product :: string
  Component :: "string list"
  Keywords :: "string list"
  Whiteboard :: string
  Severity :: string
  Priority :: string
  TargetRelease :: "string list"
  Status :: string
  Flags :: "Flag list"
  Escalation :: string
  ExternalBugs :: "ExternalBug list"
  Summary :: string

text \<open>The query descriptor handed to the tracker client, with the fields this code sets.\<close>

record AdvancedQuery =
  Field :: string
  Op :: string
  Value :: string

record Query =
  Classification :: "string list"
  Product :: "string list"
  Status :: "string list"
  Component :: "string list"
  TargetRelease :: "string list"
  Advanced :: "AdvancedQuery list"
  IncludeFields :: "string list"

text \<open>The operator configuration, as far as the reporters read it.\<close>

record ComponentConfig =
  Lead :: string
  Developers :: "string list"

record ReleaseConfig =
  CurrentTargetRelease :: string
  TargetReleases :: "string list"

record OperatorConfig =
  Components :: "(string \<times> ComponentConfig) list"
  Groups :: "(string \<times> string list) list"
  Release :: ReleaseConfig

text \<open>
  Errors are values. \<open>ErrSyntax\<close> and \<open>ErrRange\<close> are the two errors of
  \<^verbatim>\<open>strconv.Atoi\<close>; \<open>ExternalError\<close> stands for an error returned by the tracker, the
  key/value store or the chat client. \<open>IndexOutOfRange\<close> is Go's run-time panic.
\<close>

datatype error = ErrSyntax | ErrRange | ExternalError string | IndexOutOfRange

section \<open>Go maps, strings and numbers\<close>

text \<open>
  A Go map is modelled as an association list with distinct keys, in the order in which the
  keys were first stored: \<open>map_of\<close> looks a key up and \<open>AList.update\<close> stores a value.
  Go leaves the order in which \<^verbatim>\<open>range\<close> visits a map unspecified: a loop that ranges
  over a map visits the entries sorted by an arbitrary ranking of the keys, a parameter
  (\<open>rangeMap\<close>).

  \<^verbatim>\<open>m[k]\<close> yields the zero value (the nil slice, the number 0) when the key is absent, so
  \<^verbatim>\<open>m[k] = append(m[k], v)\<close> creates the entry on first use.
\<close>

definition index :: "('k \<times> 'v list) list \<Rightarrow> 'k \<Rightarrow> 'v list" where
  "index m k = (case map_of m k of None \<Rightarrow> [] | Some xs \<Rightarrow> xs)"

definition appendAt :: "('k \<times> 'v list) list \<Rightarrow> 'k \<Rightarrow> 'v \<Rightarrow> ('k \<times> 'v list) list" where
  "appendAt m k v = AList.update k (index m k @ [v]) m"

definition incrAt :: "('k \<times> int) list \<Rightarrow> 'k \<Rightarrow> ('k \<times> int) list" where
  "incrAt m k = AList.update k ((case map_of m k of None \<Rightarrow> 0 | Some c \<Rightarrow> c) + 1) m"

definition rangeMap :: "('k \<Rightarrow> nat) \<Rightarrow> ('k \<times> 'v) list \<Rightarrow> ('k \<times> 'v) list" where
  "rangeMap rank m = sort_key (\<lambda>(k, v). rank k) m"

text \<open>\<^verbatim>\<open>strings.Join\<close>.\<close>

fun Join :: "string list \<Rightarrow> string \<Rightarrow> string" where
  "Join [] sep = []"
| "Join [x] sep = x"
| "Join (x # y # ys) sep = x @ sep @ Join (y # ys) sep"

text \<open>
  \<^verbatim>\<open>strconv.Itoa\<close> and the \<^verbatim>\<open>%d\<close> verb of \<^verbatim>\<open>fmt.Sprintf\<close>: the decimal digits, most
  significant first, after a minus sign for a negative number.
\<close>

fun digits :: "nat \<Rightarrow> string" where
  "digits n =
     (if n < 10 then [''0123456789'' ! n] else digits (n div 10) @ [''0123456789'' ! (n mod 10)])"

declare digits.simps [simp del]

definition Itoa :: "int \<Rightarrow> string" where
  "Itoa n = (if n < 0 then CHR ''-'' # digits (nat (- n)) else digits (nat n))"

text \<open>
  \<^verbatim>\<open>strconv.Atoi\<close> on a 64-bit platform: an optional sign, then one or more decimal
  digits and nothing else; a value outside the range of \<^verbatim>\<open>int\<close> is an error.
\<close>

definition digitValue :: "char \<Rightarrow> nat option" where
  "digitValue c = map_of (zip ''0123456789'' [0 ..< 10]) c"

fun parseDigits :: "nat \<Rightarrow> string \<Rightarrow> nat option" where
  "parseDigits acc [] = Some acc"
| "parseDigits acc (c # cs) =
     (case digitValue c of None \<Rightarrow> None | Some d \<Rightarrow> parseDigits (10 * acc + d) cs)"

definition Atoi :: "string \<Rightarrow> error + int" where
  "Atoi s =
     (let (neg, ds) = (case s of
                         [] \<Rightarrow> (False, [])
                       | c # cs \<Rightarrow> if c = CHR ''-'' then (True, cs)
                                 else if c = CHR ''+'' then (False, cs) else (False, s))
      in if ds = [] then Inl ErrSyntax
         else case parseDigits 0 ds of
                None \<Rightarrow> Inl ErrSyntax
              | Some n \<Rightarrow>
                  let v = (if neg then - int n else int n)
                  in if v < - (2 ^ 63) \<or> 2 ^ 63 - 1 < v then Inl ErrRange else Inr v)"

section \<open>The blockers reporter: classification\<close>

record bugSummary =
  seriousIDs :: "(string \<times> int list) list"
  blockerPlus :: "string list"
  blockerPlusIDs :: "int list"
  blockerQuestionmark :: "string list"
  blockerQuestionmarkIDs :: "int list"
  toTriage :: "string list"
  toTriageIDs :: "int list"
  needUpcomingSprint :: "string list"
  needUpcomingSprintIDs :: "int list"
  urgentIDs :: "int list"
  urgent :: "string list"
  staleCount :: int
  priorityCount :: "(string \<times> int) list"
  severityCount :: "(string \<times> int) list"
  currentReleaseCount :: int

definition seriousKeywords :: "string list" where
  "seriousKeywords = [''ServiceDeliveryBlocker'', ''TestBlocker'', ''UpgradeBlocker'']"

text \<open>\<^verbatim>\<open>hasFlag\<close>: a loop over the flags that returns at the first match.\<close>

fun hasFlag_loop :: "Flag list \<Rightarrow> string \<Rightarrow> string \<Rightarrow> bool" where
  "hasFlag_loop [] name v = False"
| "hasFlag_loop (f # fs) name v =
     (if Flag.Name f = name \<and> Flag.Status f = v then True else hasFlag_loop fs name v)"

definition hasFlag :: "Bug \<Rightarrow> string \<Rightarrow> string \<Rightarrow> bool" where
  "hasFlag bug name v = hasFlag_loop (Flags bug) name v"

text \<open>
  The initial summary of \<^verbatim>\<open>summarizeBugs\<close>: three empty maps, every other field at its
  zero value.
\<close>

definition emptySummary :: bugSummary where
  "emptySummary = \<lparr>seriousIDs = [], blockerPlus = [], blockerPlusIDs = [],
     blockerQuestionmark = [], blockerQuestionmarkIDs = [], toTriage = [], toTriageIDs = [],
     needUpcomingSprint = [], needUpcomingSprintIDs = [], urgentIDs = [], urgent = [],
     staleCount = 0, priorityCount = [], severityCount = [],
     currentReleaseCount = 0\<rparr>"

text \<open>
  The body of the loop of \<^verbatim>\<open>summarizeBugs\<close>, one definition per statement.
  \<open>FormatBugMessage\<close> is \<^verbatim>\<open>bugutil.FormatBugMessage\<close>, a helper of another package,
  taken as a parameter. \<^verbatim>\<open>sets.NewString(xs...)\<close> is \<open>set xs\<close> and \<^verbatim>\<open>Has\<close> is membership.
\<close>

definition targetReleaseOf :: "Bug \<Rightarrow> string" where
  "targetReleaseOf bug =
     (if length (Bug.TargetRelease bug) > 0 then hd (Bug.TargetRelease bug) else ''---'')"

definition addSeriousKeywords :: "Bug \<Rightarrow> bugSummary \<Rightarrow> bugSummary" where
  "addSeriousKeywords bug r =
     r\<lparr>seriousIDs :=
         fold (\<lambda>keyword m. if keyword \<in> set (Keywords bug) then appendAt m keyword (ID bug) else m)
           seriousKeywords (seriousIDs r)\<rparr>"

definition countStale :: "Bug \<Rightarrow> bugSummary \<Rightarrow> bugSummary" where
  "countStale bug r =
     (if sublist ''LifecycleStale'' (Whiteboard bug) then r\<lparr>staleCount := staleCount r + 1\<rparr> else r)"

definition countSeverityPriority :: "Bug \<Rightarrow> bugSummary \<Rightarrow> bugSummary" where
  "countSeverityPriority bug r =
     r\<lparr>severityCount := incrAt (severityCount r) (Severity bug),
       priorityCount := incrAt (priorityCount r) (Priority bug)\<rparr>"

definition addUrgent :: "(Bug \<Rightarrow> string) \<Rightarrow> Bug \<Rightarrow> bugSummary \<Rightarrow> bugSummary" where
  "addUrgent FormatBugMessage bug r =
     (if Priority bug = ''urgent'' \<or> Severity bug = ''urgent''
      then r\<lparr>urgent := urgent r @ [FormatBugMessage bug], urgentIDs := urgentIDs r @ [ID bug]\<rparr>
      else r)"

definition addNeedUpcomingSprint :: "(Bug \<Rightarrow> string) \<Rightarrow> Bug \<Rightarrow> bugSummary \<Rightarrow> bugSummary" where
  "addNeedUpcomingSprint FormatBugMessage bug r =
     (if ''UpcomingSprint'' \<notin> set (Keywords bug)
      then r\<lparr>needUpcomingSprint := needUpcomingSprint r @ [FormatBugMessage bug],
             needUpcomingSprintIDs := needUpcomingSprintIDs r @ [ID bug]\<rparr>
      else r)"

definition addBlockerPlus ::
  "(Bug \<Rightarrow> string) \<Rightarrow> string \<Rightarrow> string \<Rightarrow> Bug \<Rightarrow> bugSummary \<Rightarrow> bugSummary" where
  "addBlockerPlus FormatBugMessage currentTargetRelease targetRelease bug r =
     (if hasFlag bug ''blocker'' ''+'' \<and>
         (targetRelease = currentTargetRelease \<or> targetRelease = ''---'')
      then r\<lparr>blockerPlus := blockerPlus r @ [FormatBugMessage bug],
             blockerPlusIDs := blockerPlusIDs r @ [ID bug],
             seriousIDs := appendAt (seriousIDs r) ''blocker+'' (ID bug)\<rparr>
      else r)"

definition addBlockerQuestionmark ::
  "(Bug \<Rightarrow> string) \<Rightarrow> string \<Rightarrow> string \<Rightarrow> Bug \<Rightarrow> bugSummary \<Rightarrow> bugSummary" where
  "addBlockerQuestionmark FormatBugMessage currentTargetRelease targetRelease bug r =
     (if hasFlag bug ''blocker'' ''?'' \<and>
         (targetRelease = currentTargetRelease \<or> targetRelease = ''---'')
      then r\<lparr>blockerQuestionmark := blockerQuestionmark r @ [FormatBugMessage bug],
             blockerQuestionmarkIDs := blockerQuestionmarkIDs r @ [ID bug],
             seriousIDs := appendAt (seriousIDs r) ''blocker?'' (ID bug)\<rparr>
      else r)"

definition addToTriage ::
  "(Bug \<Rightarrow> string) \<Rightarrow> string \<Rightarrow> string \<Rightarrow> Bug \<Rightarrow> bugSummary \<Rightarrow> bugSummary" where
  "addToTriage FormatBugMessage currentTargetRelease targetRelease bug r =
     (let triageState = {''NEW'', ''''} in
      if (targetRelease = currentTargetRelease \<and> Bug.Status bug \<in> triageState) \<or>
         targetRelease = ''---'' \<or> Priority bug = ''unspecified'' \<or> Priority bug = '''' \<or>
         Severity bug = ''unspecified'' \<or> Severity bug = ''''
      then r\<lparr>toTriage := toTriage r @ [FormatBugMessage bug],
             toTriageIDs := toTriageIDs r @ [ID bug]\<rparr>
      else r)"

definition countCurrentRelease :: "string \<Rightarrow> string \<Rightarrow> bugSummary \<Rightarrow> bugSummary" where
  "countCurrentRelease currentTargetRelease targetRelease r =
     (if targetRelease = currentTargetRelease \<or> targetRelease = ''---''
      then r\<lparr>currentReleaseCount := currentReleaseCount r + 1\<rparr> else r)"

text \<open>The loop body: the statements above in the order of the source.\<close>

definition summarizeBug :: "(Bug \<Rightarrow> string) \<Rightarrow> string \<Rightarrow> bugSummary \<Rightarrow> Bug \<Rightarrow> bugSummary" where
  "summarizeBug FormatBugMessage currentTargetRelease r bug =
     (let targetRelease = targetReleaseOf bug in
      countCurrentRelease currentTargetRelease targetRelease
       (addToTriage FormatBugMessage currentTargetRelease targetRelease bug
         (addBlockerQuestionmark FormatBugMessage currentTargetRelease targetRelease bug
           (addBlockerPlus FormatBugMessage currentTargetRelease targetRelease bug
             (addNeedUpcomingSprint FormatBugMessage bug
               (addUrgent FormatBugMessage bug
                 (countSeverityPriority bug
                   (countStale bug
                     (addSeriousKeywords bug r)))))))))"

definition summarizeBugs :: "(Bug \<Rightarrow> string) \<Rightarrow> string \<Rightarrow> Bug list \<Rightarrow> bugSummary" where
  "summarizeBugs FormatBugMessage currentTargetRelease bugs =
     fold (\<lambda>bug r. summarizeBug FormatBugMessage currentTargetRelease r bug) bugs emptySummary"

section \<open>The blockers reporter: report and per-person grouping\<close>

definition getBugsQuery :: "OperatorConfig \<Rightarrow> string list \<Rightarrow> string list \<Rightarrow> Query" where
  "getBugsQuery config components targetRelease =
     \<lparr>Classification = [''Red Hat''],
      Product = [''OpenShift Container Platform''],
      Status = [''NEW'', ''ASSIGNED'', ''POST'', ''ON_DEV''],
      Component = components,
      TargetRelease = targetRelease,
      Advanced = [\<lparr>Field = ''bug_severity'', Op = ''notequals'', Value = ''low''\<rparr>,
                  \<lparr>Field = ''priority'', Op = ''notequals'', Value = ''low''\<rparr>],
      IncludeFields = [''id'', ''assigned_to'', ''keywords'', ''status'', ''resolution'',
        ''summary'', ''changeddate'', ''severity'', ''priority'', ''target_release'',
        ''whiteboard'', ''flags'']\<rparr>"

text \<open>
  The collaborators of the blockers reporter. \<open>Search\<close> is the tracker client;
  \<open>getStatsForChannel\<close> renders the channel statistics (it URL-encodes the two queries with
  the tracker library and ranges over a map, and no claim is about its text);
  \<open>rangeLines\<close> ranks the persons for the loops that range over a per-person map.
\<close>

record BlockersEnv =
  FormatBugMessage :: "Bug \<Rightarrow> string"
  Search :: "Query \<Rightarrow> error + Bug list"
  getStatsForChannel :: "string \<Rightarrow> nat \<Rightarrow> bugSummary \<Rightarrow> Query \<Rightarrow> Query \<Rightarrow> string list"
  rangeLines :: "string \<Rightarrow> nat"

text \<open>
  \<^verbatim>\<open>Report\<close> of the blockers package. Its third result, the issue list, is \<^verbatim>\<open>nil\<close> on
  both return paths.
\<close>

definition blockers_Report ::
  "BlockersEnv \<Rightarrow> OperatorConfig \<Rightarrow> string list \<Rightarrow> error + (string \<times> bugSummary \<times> Bug list)" where
  "blockers_Report env config components =
     (let allReleasesQuery =
            getBugsQuery config components ([''---''] @ TargetReleases (Release config));
          currentReleaseQeury =
            getBugsQuery config components ([''---''] @ [CurrentTargetRelease (Release config)])
      in case Search env allReleasesQuery of
           Inl err \<Rightarrow> Inl err
         | Inr bugs \<Rightarrow>
             let summary = summarizeBugs (FormatBugMessage env)
                             (CurrentTargetRelease (Release config)) bugs;
                 channelStats = getStatsForChannel env (CurrentTargetRelease (Release config))
                                  (length bugs) summary allReleasesQuery currentReleaseQeury;
                 report = ''\<newline>:bug: *Today 4.x Bug Report:* :bug:\<newline>'' @
                            Join channelStats ''\<newline>'' @ ''\<newline>''
             in Inr (report, summary, []))"

text \<open>
  The closure \<^verbatim>\<open>perPerson\<close> of \<^verbatim>\<open>sync\<close>, with the index \<^verbatim>\<open>byID\<close> it captures as its
  first argument. \<^verbatim>\<open>lines[i]\<close> panics when \<open>i\<close> is out of range.
\<close>

fun perPerson_loop ::
  "(int \<rightharpoonup> Bug) \<Rightarrow> string list \<Rightarrow> nat \<Rightarrow> int list \<Rightarrow>
   (string \<times> int list) list \<times> (string \<times> string list) list \<Rightarrow>
   error + ((string \<times> int list) list \<times> (string \<times> string list) list)" where
  "perPerson_loop byID lines i [] acc = Inr acc"
| "perPerson_loop byID lines i (ident # ids) (perPersonIDs, perPersonLines) =
     (case byID ident of
        None \<Rightarrow> perPerson_loop byID lines (Suc i) ids (perPersonIDs, perPersonLines)
      | Some b \<Rightarrow>
          if i < length lines
          then perPerson_loop byID lines (Suc i) ids
                 (appendAt perPersonIDs (AssignedTo b) ident,
                  appendAt perPersonLines (AssignedTo b) (lines ! i))
          else Inl IndexOutOfRange)"

definition perPerson ::
  "(int \<rightharpoonup> Bug) \<Rightarrow> int list \<Rightarrow> string list \<Rightarrow>
   error + ((string \<times> int list) list \<times> (string \<times> string list) list)" where
  "perPerson byID ids lines = perPerson_loop byID lines 0 ids ([], [])"

record Groupings =
  perPersonToTriageIDs :: "(string \<times> int list) list"
  perPersonToTriage :: "(string \<times> string list) list"
  perPersonBlockerPlusIDs :: "(string \<times> int list) list"
  perPersonBlockerPlus :: "(string \<times> string list) list"
  perPersonUrgentIDs :: "(string \<times> int list) list"
  perPersonUrgent :: "(string \<times> string list) list"

text \<open>The three calls of \<^verbatim>\<open>perPerson\<close> in \<^verbatim>\<open>sync\<close>, with the arguments the source passes.\<close>

definition groupings :: "(int \<rightharpoonup> Bug) \<Rightarrow> bugSummary \<Rightarrow> error + Groupings" where
  "groupings byID summary =
     (case perPerson byID (toTriageIDs summary) (toTriage summary) of
        Inl e \<Rightarrow> Inl e
      | Inr (toTriageIDs', toTriage') \<Rightarrow>
     (case perPerson byID (toTriageIDs summary) (toTriage summary) of
        Inl e \<Rightarrow> Inl e
      | Inr (blockerPlusIDs', blockerPlus') \<Rightarrow>
     (case perPerson byID (urgentIDs summary) (urgent summary) of
        Inl e \<Rightarrow> Inl e
      | Inr (urgentIDs', urgent') \<Rightarrow>
          Inr \<lparr>perPersonToTriageIDs = toTriageIDs', perPersonToTriage = toTriage',
               perPersonBlockerPlusIDs = blockerPlusIDs', perPersonBlockerPlus = blockerPlus',
               perPersonUrgentIDs = urgentIDs', perPersonUrgent = urgent'\<rparr>)))"

text \<open>
  \<^verbatim>\<open>notifyPersons\<close>: one mail per person with at least one line; the result lists the
  calls of \<^verbatim>\<open>MessageEmail\<close> as (person, message). A failed delivery is only logged.
\<close>

definition urgentIntro :: "nat \<Rightarrow> string \<Rightarrow> string" where
  "urgentIntro n suffix' =
     ''You have *'' @ Itoa (int n) @ '' urgent bugs*'' @ suffix' @ '':\<newline>\<newline>''"

definition urgentOutro :: string where
  "urgentOutro =
     ''\<newline>\<newline>We are expected to actively work on these before anything else!''"

definition blockerIntro :: "nat \<Rightarrow> string \<Rightarrow> string" where
  "blockerIntro n suffix' =
     ''You have *'' @ Itoa (int n) @ '' blocker+ bugs*'' @ suffix' @ '':\<newline>\<newline>''"

definition blockerOutro :: string where
  "blockerOutro =
     ''\<newline>\<newline>Please keep eyes on these, they will risk the upcoming release if not finished in time!''"

definition triageIntro :: "nat \<Rightarrow> string \<Rightarrow> string" where
  "triageIntro n suffix' =
     ''You have *'' @ Itoa (int n) @ '' untriaged bugs*'' @ suffix' @ '':\<newline>\<newline>''"

definition triageOutro :: string where
  "triageOutro =
     ''\<newline>\<newline>Please make sure all these have the _Severity_, _Priority_ and _Target Release_ set, and move to ASSIGNED, so I can stop bothering you :-)\<newline>\<newline>''"

definition notifyPersons ::
  "BlockersEnv \<Rightarrow> (nat \<Rightarrow> string \<Rightarrow> string) \<Rightarrow> string \<Rightarrow> (string \<times> string list) list \<Rightarrow>
   string \<Rightarrow> (string \<times> string) list" where
  "notifyPersons env intro suffix' perPersonBugs outro =
     map (\<lambda>(person, lines).
            (person, intro (length lines) suffix' @ Join lines ''\<newline>'' @ outro))
       (filter (\<lambda>(person, lines). length lines \<noteq> 0) (rangeMap (rangeLines env) perPersonBugs))"

record BlockersOutcome =
  grouped :: Groupings
  emails :: "(string \<times> string) list"
  channel :: "string list"

text \<open>
  The part of \<^verbatim>\<open>sync\<close> after \<^verbatim>\<open>Report\<close> has returned: the index \<^verbatim>\<open>byID\<close> built from the
  returned issues, the three groupings, the mails and the channel message. The
  administrators' debug statistics, rendered from the three identifier maps, are not
  modelled.
\<close>

definition notify ::
  "BlockersEnv \<Rightarrow> OperatorConfig \<Rightarrow> string \<Rightarrow> bugSummary \<Rightarrow> Bug list \<Rightarrow> error + BlockersOutcome" where
  "notify env config channelReport summary bugs =
     (let byID = fold (\<lambda>b m. m(ID b \<mapsto> b)) bugs Map.empty
      in case groupings byID summary of
           Inl e \<Rightarrow> Inl e
         | Inr g \<Rightarrow>
             Inr \<lparr>grouped = g,
                  emails =
                    notifyPersons env triageIntro [] (perPersonToTriage g) triageOutro @
                    notifyPersons env blockerIntro
                      (''for the '' @ CurrentTargetRelease (Release config) @ '' release'')
                      (perPersonBlockerPlus g) blockerOutro @
                    notifyPersons env urgentIntro [] (perPersonUrgent g) urgentOutro,
                  channel = [channelReport]\<rparr>)"

definition blockers_sync ::
  "BlockersEnv \<Rightarrow> OperatorConfig \<Rightarrow> string list \<Rightarrow> error + BlockersOutcome" where
  "blockers_sync env config components =
     (case blockers_Report env config components of
        Inl err \<Rightarrow> Inl err
      | Inr (channelReport, summary, bugs) \<Rightarrow> notify env config channelReport summary bugs)"

section \<open>The escalation reporter\<close>

definition getSeverityUrgentBugs_query :: "OperatorConfig \<Rightarrow> string list \<Rightarrow> Query" where
  "getSeverityUrgentBugs_query config components =
     \<lparr>Classification = [''Red Hat''],
      Product = [''OpenShift Container Platform''],
      Status = [''NEW'', ''ASSIGNED'', ''POST'', ''ON_DEV''],
      Component = components,
      TargetRelease = [],
      Advanced = [],
      IncludeFields = [''id'', ''assigned_to'', ''status'', ''severity'', ''priority'',
        ''external_bugs'', ''component'', ''summary'']\<rparr>"

definition getSeverityUrgentBugs ::
  "(Query \<Rightarrow> error + Bug list) \<Rightarrow> OperatorConfig \<Rightarrow> string list \<Rightarrow> error + Bug list" where
  "getSeverityUrgentBugs search config components =
     search (getSeverityUrgentBugs_query config components)"

text \<open>
  Modelled from the spec: the tracker's \<^verbatim>\<open>Search\<close> is an external service, and the spec
  gives a query as classification, product, status set, component set, target-release set
  and a list of (field, operator, value) predicates. An issue matches when each populated
  field of the query admits it and every predicate holds; an empty field restricts
  nothing. What a predicate means is the tracker's business: \<open>holds\<close> is a parameter.
\<close>

definition oneOf :: "string list \<Rightarrow> string \<Rightarrow> bool" where
  "oneOf allowed v = (allowed = [] \<or> v \<in> set allowed)"

definition anyOf :: "string list \<Rightarrow> string list \<Rightarrow> bool" where
  "anyOf allowed vs = (allowed = [] \<or> (\<exists>v \<in> set vs. v \<in> set allowed))"

definition matches :: "(AdvancedQuery \<Rightarrow> Bug \<Rightarrow> bool) \<Rightarrow> Query \<Rightarrow> Bug \<Rightarrow> bool" where
  "matches holds q b =
     (oneOf (Query.Classification q) (Bug.Classification b) \<and>
      oneOf (Query.Product q) (Bug.Product b) \<and>
      oneOf (Query.Status q) (Bug.Status b) \<and>
      anyOf (Query.Component q) (Bug.Component b) \<and>
      anyOf (Query.TargetRelease q) (Bug.TargetRelease b) \<and>
      list_all (\<lambda>a. holds a b) (Advanced q))"

text \<open>
  The aggregation loop of \<^verbatim>\<open>Report\<close>. The inner loop over the external cases stops at the
  first case of type \<^verbatim>\<open>SFDC\<close>.
\<close>

record Aggregation =
  assigned :: "(string \<times> Bug list) list"
  silenced :: "Bug list"
  leadsBugs :: "(string \<times> Bug list) list"
  missingComponents :: "string set"

definition emptyAggregation :: Aggregation where
  "emptyAggregation = \<lparr>assigned = [], silenced = [], leadsBugs = [], missingComponents = {}\<rparr>"

fun customerCases_loop :: "ExternalBug list \<Rightarrow> bool" where
  "customerCases_loop [] = False"
| "customerCases_loop (eb # ebs) =
     (if ExternalBugType.Type (ExternalBug.Type eb) = ''SFDC'' then True
      else customerCases_loop ebs)"

text \<open>
  The statements under \<^verbatim>\<open>if len(b.Component) > 0\<close>. A component missing from the
  configuration yields the zero \<^verbatim>\<open>Component\<close>, whose lead is empty.
\<close>

definition attributeLead :: "OperatorConfig \<Rightarrow> Bug \<Rightarrow> Aggregation \<Rightarrow> Aggregation" where
  "attributeLead cfg b agg =
     (case Bug.Component b of
        [] \<Rightarrow> agg
      | c # _ \<Rightarrow>
          let found = map_of (Components cfg) c;
              comp = (case found of None \<Rightarrow> \<lparr>Lead = [], Developers = []\<rparr> | Some x \<Rightarrow> x);
              agg1 = (if found = None
                      then agg\<lparr>missingComponents := insert c (missingComponents agg)\<rparr>
                      else agg)
          in if length (Lead comp) > 0
             then agg1\<lparr>leadsBugs := appendAt (leadsBugs agg1) (Lead comp) b\<rparr>
             else agg1)"

definition aggregateBug :: "OperatorConfig \<Rightarrow> Aggregation \<Rightarrow> Bug \<Rightarrow> Aggregation" where
  "aggregateBug cfg agg b =
     (let escalationFlag = (Escalation b = ''Yes'');
          customerCases = customerCases_loop (ExternalBugs b)
      in if escalationFlag \<or> (customerCases \<and> Priority b = ''urgent'') \<or>
            (customerCases \<and> Severity b = ''urgent'' \<and> Priority b = ''unspecified'')
         then attributeLead cfg b (agg\<lparr>assigned := appendAt (assigned agg) (AssignedTo b) b\<rparr>)
         else if Severity b = ''urgent'' \<and> Priority b \<noteq> ''unspecified''
         then agg\<lparr>silenced := silenced agg @ [b]\<rparr>
         else agg)"

definition aggregate :: "OperatorConfig \<Rightarrow> Bug list \<Rightarrow> Aggregation" where
  "aggregate cfg bugs = fold (\<lambda>b agg. aggregateBug cfg agg b) bugs emptyAggregation"

subsection \<open>The quota: a product of two binary64 numbers\<close>

text \<open>
  \<^verbatim>\<open>int(float64(len(team))*0.2)\<close> is computed in IEEE 754 binary64. A non-negative finite
  binary64 number is \<open>mant * 2 ^ expo\<close>; \<open>round53\<close> rounds an exact non-negative value to
  a mantissa of at most 53 bits, to nearest, ties to even (exponent overflow and subnormal
  numbers cannot occur for the values computed here). The constant \<^verbatim>\<open>0.2\<close> is the
  binary64 number nearest to one fifth, \<open>3602879701896397 / 2 ^ 54\<close>. The conversion to
  \<^verbatim>\<open>int\<close> truncates.
\<close>

record float64 =
  mant :: nat
  expo :: int

fun bitLength :: "nat \<Rightarrow> nat" where
  "bitLength n = (if n = 0 then 0 else Suc (bitLength (n div 2)))"

declare bitLength.simps [simp del]

definition round53 :: "nat \<Rightarrow> int \<Rightarrow> float64" where
  "round53 m e =
     (if bitLength m \<le> 53 then \<lparr>mant = m, expo = e\<rparr>
      else let s = bitLength m - 53;
               q = m div 2 ^ s;
               r = m mod 2 ^ s;
               q' = (if 2 ^ s < 2 * r \<or> (2 * r = 2 ^ s \<and> odd q) then q + 1 else q)
           in \<lparr>mant = q', expo = e + int s\<rparr>)"

definition float64_of_nat :: "nat \<Rightarrow> float64" where
  "float64_of_nat n = round53 n 0"

definition float64_mul :: "float64 \<Rightarrow> float64 \<Rightarrow> float64" where
  "float64_mul a b = round53 (mant a * mant b) (expo a + expo b)"

definition float64_0_2 :: float64 where
  "float64_0_2 = \<lparr>mant = 3602879701896397, expo = - 54\<rparr>"

definition int_of_float64 :: "float64 \<Rightarrow> int" where
  "int_of_float64 a =
     (if 0 \<le> expo a then int (mant a * 2 ^ nat (expo a))
      else int (mant a div 2 ^ nat (- expo a)))"

text \<open>The package's own \<^verbatim>\<open>max\<close>.\<close>

definition max_go :: "int \<Rightarrow> int \<Rightarrow> int" where
  "max_go x y = (if x > y then x else y)"

definition maxEscalationsFor :: "nat \<Rightarrow> int" where
  "maxEscalationsFor teamSize =
     max_go 1 (int_of_float64 (float64_mul (float64_of_nat teamSize) float64_0_2))"

subsection \<open>The report text\<close>

text \<open>
  The collaborators of the escalation reporter: \<^verbatim>\<open>bugutil.GetBugURL\<close> and
  \<^verbatim>\<open>config.ExpandGroups\<close> are helpers of other packages, taken as parameters
  (\<open>ExpandGroups\<close> receives the root set, which the source passes as its sorted list of
  elements, and returns a string set); \<open>rangeBugs\<close> ranks the names for the loops that
  range over a map from names to issue lists.
\<close>

record EscalationEnv =
  GetBugURL :: "Bug \<Rightarrow> string"
  ExpandGroups :: "(string \<times> string list) list \<Rightarrow> string set \<Rightarrow> string set"
  rangeBugs :: "string \<Rightarrow> nat"

definition teamOf :: "EscalationEnv \<Rightarrow> OperatorConfig \<Rightarrow> string \<Rightarrow> string set" where
  "teamOf env cfg lead =
     (let roots = \<Union> (set (map (\<lambda>comp. set (Developers comp))
                          (filter (\<lambda>comp. Lead comp = lead) (map snd (Components cfg)))))
      in ExpandGroups env (Groups cfg) roots)"

text \<open>The body of the loop over \<^verbatim>\<open>leadsBugs\<close>: the team's line, then one line per issue.\<close>

definition leadLines :: "EscalationEnv \<Rightarrow> OperatorConfig \<Rightarrow> string \<Rightarrow> Bug list \<Rightarrow> string list" where
  "leadLines env cfg lead bugs =
     (let team = teamOf env cfg lead;
          maxEscalations = maxEscalationsFor (card team)
      in (if int (length bugs) > maxEscalations
          then '':red-siren: '' @ lead @ '''s team with '' @ Itoa (int (length bugs)) @
               '' bugs, above the quota of '' @ Itoa maxEscalations
          else lead @ '''s team with '' @ Itoa (int (length bugs)) @ '' bug'') #
         map (\<lambda>b. ''> '' @ GetBugURL env b @ '' '' @ Bug.Status b @ '' @ '' @ AssignedTo b @
                   '': '' @ Summary b) bugs)"

text \<open>The loop over \<^verbatim>\<open>assigned\<close>, with its flag \<^verbatim>\<open>first\<close>.\<close>

fun assigneeLines :: "EscalationEnv \<Rightarrow> bool \<Rightarrow> (string \<times> Bug list) list \<Rightarrow> string list" where
  "assigneeLines env first [] = []"
| "assigneeLines env first ((assignee, bugs) # rest) =
     (if length bugs = 1 then assigneeLines env first rest
      else (if first then [[], ''Assignees with more than one escalation:''] else []) @
           [''> :red-siren: '' @ assignee @ '': '' @ Join (map (GetBugURL env) bugs) '' ''] @
           assigneeLines env False rest)"

definition silencedLines :: "EscalationEnv \<Rightarrow> Bug list \<Rightarrow> string list" where
  "silencedLines env silenced' =
     (if length silenced' > 0
      then (let links = map (GetBugURL env) silenced'
            in [[], Itoa (int (length links)) @ '' silenced bugs :see_no_evil: : '' @
                    Join links '' ''])
      else [])"

text \<open>
  \<^verbatim>\<open>Report\<close> of the escalation package. The note to the administrators about components
  missing from the configuration is a side effect outside the returned text; the set it
  lists is \<open>missingComponents\<close>.
\<close>

definition escalation_Report ::
  "EscalationEnv \<Rightarrow> (Query \<Rightarrow> error + Bug list) \<Rightarrow> OperatorConfig \<Rightarrow> string list \<Rightarrow>
   error + string" where
  "escalation_Report env search cfg components =
     (case getSeverityUrgentBugs search cfg components of
        Inl err \<Rightarrow> Inl err
      | Inr urgentSeverityBugs \<Rightarrow>
          let agg = aggregate cfg urgentSeverityBugs
          in if length (leadsBugs agg) = 0 \<and> length (silenced agg) = 0 then Inr []
             else Inr (Join
                    ([''Escalation report:'', []] @
                     concat (map (\<lambda>(lead, bugs). leadLines env cfg lead bugs)
                               (rangeMap (rangeBugs env) (leadsBugs agg))) @
                     assigneeLines env True (rangeMap (rangeBugs env) (assigned agg)) @
                     silencedLines env (silenced agg))
                    ''\<newline>''))"

text \<open>
  \<^verbatim>\<open>sync\<close> of the escalation package: the returned error and the messages handed to
  \<^verbatim>\<open>MessageChannel\<close>, whose own result is the parameter \<open>deliver\<close>.
\<close>

definition escalation_sync ::
  "EscalationEnv \<Rightarrow> (Query \<Rightarrow> error + Bug list) \<Rightarrow> (string \<Rightarrow> error option) \<Rightarrow>
   OperatorConfig \<Rightarrow> string list \<Rightarrow> error option \<times> string list" where
  "escalation_sync env search deliver cfg components =
     (case escalation_Report env search cfg components of
        Inl err \<Rightarrow> (Some err, [])
      | Inr report \<Rightarrow>
          if length report = 0 then (None, [])
          else (deliver report, [report]))"

section \<open>The new-bug reporter\<close>

definition getNewBugs_query :: "string list \<Rightarrow> int \<Rightarrow> Query" where
  "getNewBugs_query components lastID =
     (let aq = (if lastID = 0
                then \<lparr>Field = ''creation_ts'', Op = ''greaterthaneq'', Value = ''-24h''\<rparr>
                else \<lparr>Field = ''bug_id'', Op = ''greaterthan'', Value = Itoa lastID\<rparr>)
      in \<lparr>Classification = [''Red Hat''],
          Product = [''OpenShift Container Platform''],
          Status = [''NEW''],
          Component = components,
          TargetRelease = [],
          Advanced = [aq],
          IncludeFields = [''id'', ''assigned_to'', ''component'', ''summary'']\<rparr>)"

definition getNewBugs ::
  "(Query \<Rightarrow> error + Bug list) \<Rightarrow> string list \<Rightarrow> int \<Rightarrow> error + Bug list" where
  "getNewBugs search components lastID = search (getNewBugs_query components lastID)"

text \<open>
  Modelled from the spec: the persistent key/value store behind
  \<^verbatim>\<open>GetPersistentValue\<close> and \<^verbatim>\<open>SetPersistentValue\<close> (methods of the controller context,
  which belongs to another package). \<open>Get(key)\<close> yields a string or an error, \<open>Set(key, value)\<close> an error or
  nothing. A key never written reads as the empty string; a failed write leaves the store
  as it was. Whether a call fails is an input of the cycle.
\<close>

definition GetPersistentValue :: "error option \<Rightarrow> (string \<rightharpoonup> string) \<Rightarrow> string \<Rightarrow> error + string" where
  "GetPersistentValue failure st key =
     (case failure of
        Some e \<Rightarrow> Inl e
      | None \<Rightarrow> Inr (case st key of None \<Rightarrow> [] | Some s \<Rightarrow> s))"

definition SetPersistentValue ::
  "error option \<Rightarrow> (string \<rightharpoonup> string) \<Rightarrow> string \<Rightarrow> string \<Rightarrow> error option \<times> (string \<rightharpoonup> string)" where
  "SetPersistentValue failure st key v =
     (case failure of Some e \<Rightarrow> (Some e, st) | None \<Rightarrow> (None, st(key \<mapsto> v)))"

text \<open>
  The loop of \<^verbatim>\<open>sync\<close> over the new issues, with its index \<open>i\<close>: it raises the cursor,
  collects one link per issue and leaves at the first index above 50.
\<close>

definition bugLink :: "int \<Rightarrow> string" where
  "bugLink n = ''<https://bugzilla.redhat.com/show_bug.cgi?id='' @ Itoa n @ ''|#'' @ Itoa n @ ''>''"

fun newBugs_loop :: "nat \<Rightarrow> nat \<Rightarrow> Bug list \<Rightarrow> int \<times> string list \<Rightarrow> int \<times> string list" where
  "newBugs_loop len i [] (lastID, ids) = (lastID, ids)"
| "newBugs_loop len i (b # bs) (lastID, ids) =
     (let lastID' = (if ID b > lastID then ID b else lastID);
          ids' = ids @ [bugLink (ID b)]
      in if i > 50
         then (lastID', ids' @ ['' ... and '' @ Itoa (int len - 50) @ '' more''])
         else newBugs_loop len (Suc i) bs (lastID', ids'))"

text \<open>
  One cycle. \<open>getFailure\<close>, \<open>setFailure\<close> and \<open>tracker\<close> are what the store and the tracker
  answer. The outcome records the returned error, the store afterwards, every call of
  \<^verbatim>\<open>SetPersistentValue\<close> as (key, value), every query sent to the tracker and every
  message to the administrators' channel.
\<close>

record NewBugEnv =
  getFailure :: "error option"
  setFailure :: "error option"
  tracker :: "Query \<Rightarrow> error + Bug list"

record Outcome =
  returned :: "error option"
  store :: "string \<rightharpoonup> string"
  persistCalls :: "(string \<times> string) list"
  queries :: "Query list"
  adminMessages :: "string list"

text \<open>
  The statements of \<^verbatim>\<open>sync\<close> between the registration of the deferred function and the
  return: the error, the cursor \<^verbatim>\<open>lastID\<close> as the deferred function will read it, and the
  messages sent.
\<close>

definition cycle :: "NewBugEnv \<Rightarrow> string list \<Rightarrow> int \<Rightarrow> error option \<times> int \<times> string list" where
  "cycle env components lastID =
     (case getNewBugs (tracker env) components lastID of
        Inl err \<Rightarrow> (Some err, lastID, [])
      | Inr newBugs \<Rightarrow>
          let (lastID', ids) = newBugs_loop (length newBugs) 0 newBugs (lastID, [])
          in (None, lastID', [''Found new bugs: '' @ Join ids '', '']))"

definition stateKeyOf :: "string list \<Rightarrow> string" where
  "stateKeyOf components = ''new-bug-reporter.state-'' @ Join components ''-''"

definition parseState :: "string \<Rightarrow> int" where
  "parseState s = (if s \<noteq> [] then (case Atoi s of Inl err \<Rightarrow> 0 | Inr n \<Rightarrow> n) else 0)"

definition new_sync :: "NewBugEnv \<Rightarrow> string list \<Rightarrow> (string \<rightharpoonup> string) \<Rightarrow> Outcome" where
  "new_sync env components st =
     (let stateKey = stateKeyOf components
      in case GetPersistentValue (getFailure env) st stateKey of
           Inl err \<Rightarrow>
             \<lparr>returned = Some err, store = st, persistCalls = [], queries = [],
              adminMessages = []\<rparr>
         | Inr s \<Rightarrow>
             let lastID = parseState s;
                 (err, lastID', messages) = cycle env components lastID;
                 (persistErr, st') =
                   SetPersistentValue (setFailure env) st stateKey (Itoa lastID')
             in \<lparr>returned = (if err = None then persistErr else err),
                  store = st',
                  persistCalls = [(stateKey, Itoa lastID')],
                  queries = [getNewBugs_query components lastID],
                  adminMessages = messages\<rparr>)"

section \<open>The rules as the specification words them\<close>

text \<open>
  The resolved release of an issue: the first element of its target-release list, or the
  sentinel when the list is empty.
\<close>

definition resolvedRelease :: "Bug \<Rightarrow> string" where
  "resolvedRelease b = (case Bug.TargetRelease b of [] \<Rightarrow> ''---'' | r # _ \<Rightarrow> r)"

definition carriesFlag :: "Bug \<Rightarrow> string \<Rightarrow> string \<Rightarrow> bool" where
  "carriesFlag b name v = (\<exists>f \<in> set (Flags b). Flag.Name f = name \<and> Flag.Status f = v)"

text \<open>
  The blocker rule: a flag named blocker with the given value, and a resolved release
  that is the reference release or the sentinel.
\<close>

definition blockerGate :: "string \<Rightarrow> string \<Rightarrow> Bug \<Rightarrow> bool" where
  "blockerGate v reference b =
     (carriesFlag b ''blocker'' v \<and>
      (resolvedRelease b = reference \<or> resolvedRelease b = ''---''))"

text \<open>Escalation eligibility and the rule of the silenced list.\<close>

definition hasCustomerCase :: "Bug \<Rightarrow> bool" where
  "hasCustomerCase b =
     (\<exists>eb \<in> set (ExternalBugs b). ExternalBugType.Type (ExternalBug.Type eb) = ''SFDC'')"

definition eligible :: "Bug \<Rightarrow> bool" where
  "eligible b =
     (Escalation b = ''Yes'' \<or>
      (hasCustomerCase b \<and> Priority b = ''urgent'') \<or>
      (hasCustomerCase b \<and> Severity b = ''urgent'' \<and> Priority b = ''unspecified''))"

definition silencedRule :: "Bug \<Rightarrow> bool" where
  "silencedRule b = (\<not> eligible b \<and> Severity b = ''urgent'' \<and> Priority b \<noteq> ''unspecified'')"

text \<open>The urgent and the to-triage rule of the classifier.\<close>

definition urgentRule :: "Bug \<Rightarrow> bool" where
  "urgentRule b = (Priority b = ''urgent'' \<or> Severity b = ''urgent'')"

definition triageRule :: "string \<Rightarrow> Bug \<Rightarrow> bool" where
  "triageRule reference b =
     ((Bug.Status b \<in> {''NEW'', []} \<and> resolvedRelease b = reference) \<or>
      resolvedRelease b = ''---'' \<or>
      Priority b \<in> {''unspecified'', []} \<or>
      Severity b \<in> {''unspecified'', []})"

text \<open>
  The watermark a cycle starts from: the persisted string of the component set, read as
  the cycle reads it (absent, empty or unparsable counts as 0).
\<close>

definition previousWatermark :: "string list \<Rightarrow> (string \<rightharpoonup> string) \<Rightarrow> int" where
  "previousWatermark components st =
     parseState (case st (stateKeyOf components) of None \<Rightarrow> [] | Some s \<Rightarrow> s)"

text \<open>
  The lead an issue is attributed to: the lead configured for its primary component; empty
  when the issue has no component, or the component is not configured or has no lead.
\<close>

definition leadOf :: "OperatorConfig \<Rightarrow> Bug \<Rightarrow> string" where
  "leadOf cfg b =
     (case Bug.Component b of
        [] \<Rightarrow> []
      | c # _ \<Rightarrow> (case map_of (Components cfg) c of None \<Rightarrow> [] | Some x \<Rightarrow> Lead x))"

section \<open>Example data\<close>

text \<open>An issue with every field empty, the base of the concrete issues used below.\<close>

definition blankBug :: Bug where
  "blankBug =
     \<lparr>ID = 0, AssignedTo = [], Bug.Classification = [], Bug.Product = [], Bug.Component = [],
      Keywords = [], Whiteboard = [], Severity = [], Priority = [], Bug.TargetRelease = [],
      Bug.Status = [], Flags = [], Escalation = [], ExternalBugs = [], Summary = []\<rparr>"

text \<open>
  A configuration whose only component has developers but no lead, two escalated issues of
  that component with one assignee, and collaborators that answer with fixed values.
\<close>

definition noLeadConfig :: OperatorConfig where
  "noLeadConfig =
     \<lparr>Components = [(''etcd'', \<lparr>Lead = [], Developers = [''dev@example.com'']\<rparr>)],
      Groups = [],
      Release = \<lparr>CurrentTargetRelease = ''4.5'', TargetReleases = [''4.5'', ''4.4'']\<rparr>\<rparr>"

definition twoEscalations :: "Bug list" where
  "twoEscalations =
     [blankBug\<lparr>ID := 1, AssignedTo := ''alice@example.com'', Bug.Component := [''etcd''],
               Severity := ''high'', Priority := ''high'', Escalation := ''Yes''\<rparr>,
      blankBug\<lparr>ID := 2, AssignedTo := ''alice@example.com'', Bug.Component := [''etcd''],
               Severity := ''high'', Priority := ''high'', Escalation := ''Yes''\<rparr>]"

definition plainEnv :: EscalationEnv where
  "plainEnv =
     \<lparr>GetBugURL = (\<lambda>b. ''https://bugzilla.redhat.com/show_bug.cgi?id='' @ Itoa (ID b)),
      ExpandGroups = (\<lambda>groups roots. roots),
      rangeBugs = (\<lambda>name. 0)\<rparr>"

text \<open>
  An issue without a target release, which is to be triaged and carries no blocker flag,
  and an issue of another assignee that is triaged and flagged blocker+ for release 4.5.
\<close>

definition triageBug :: Bug where
  "triageBug = blankBug\<lparr>ID := 1, AssignedTo := ''alice@example.com'', Bug.Status := ''NEW''\<rparr>"

definition blockerBug :: Bug where
  "blockerBug =
     blankBug\<lparr>ID := 2, AssignedTo := ''bob@example.com'', Bug.Status := ''ASSIGNED'',
              Severity := ''high'', Priority := ''high'', Bug.TargetRelease := [''4.5''],
              Flags := [\<lparr>Name = ''blocker'', Status = ''+''\<rparr>]\<rparr>"

definition lineOf :: "Bug \<Rightarrow> string" where
  "lineOf b = ''bug '' @ Itoa (ID b)"

text \<open>Collaborators of the blockers reporter whose tracker answers with the given issues.\<close>

definition blockersEnv :: "Bug list \<Rightarrow> BlockersEnv" where
  "blockersEnv found =
     \<lparr>FormatBugMessage = lineOf, Search = (\<lambda>q. Inr found),
      getStatsForChannel = (\<lambda>release n summary q1 q2. []), rangeLines = (\<lambda>person. 0)\<rparr>"

text \<open>
  An open issue of the product with severity high whose escalation indicator is set.
\<close>

definition escalatedHighBug :: Bug where
  "escalatedHighBug =
     blankBug\<lparr>ID := 3, AssignedTo := ''alice@example.com'', Bug.Classification := ''Red Hat'',
              Bug.Product := ''OpenShift Container Platform'', Bug.Component := [''etcd''],
              Severity := ''high'', Priority := ''high'', Bug.Status := ''NEW'',
              Escalation := ''Yes''\<rparr>"

text \<open>
  Fifty-three new issues numbered 1 to 53, three new issues, and three environments of the
  new-bug cycle: one where every call succeeds and the tracker finds the given issues, one
  whose store cannot be read, and one whose tracker fails and whose store is read-only.
\<close>

definition manyBugs :: "Bug list" where
  "manyBugs = map (\<lambda>n. blankBug\<lparr>ID := n\<rparr>) [1 .. 53]"

definition threeBugs :: "Bug list" where
  "threeBugs = [blankBug\<lparr>ID := 60\<rparr>, blankBug\<lparr>ID := 75\<rparr>, blankBug\<lparr>ID := 61\<rparr>]"

definition trackerFinds :: "Bug list \<Rightarrow> NewBugEnv" where
  "trackerFinds found = \<lparr>getFailure = None, setFailure = None, tracker = (\<lambda>q. Inr found)\<rparr>"

definition storeDown :: NewBugEnv where
  "storeDown =
     \<lparr>getFailure = Some (ExternalError ''store unavailable''), setFailure = None,
      tracker = (\<lambda>q. Inr [])\<rparr>"

definition trackerDown :: NewBugEnv where
  "trackerDown =
     \<lparr>getFailure = None, setFailure = Some (ExternalError ''store read-only''),
      tracker = (\<lambda>q. Inl (ExternalError ''tracker unavailable''))\<rparr>"

text \<open>A configuration whose only component has a lead and seven developers.\<close>

definition sevenDevConfig :: OperatorConfig where
  "sevenDevConfig =
     \<lparr>Components =
        [(''etcd'', \<lparr>Lead = ''lead@example.com'',
                    Developers = [''dev1'', ''dev2'', ''dev3'', ''dev4'', ''dev5'', ''dev6'',
                      ''dev7'']\<rparr>)],
      Groups = [],
      Release = \<lparr>CurrentTargetRelease = ''4.5'', TargetReleases = [''4.5'', ''4.4'']\<rparr>\<rparr>"

section \<open>Verification: maps\<close>

lemma index_appendAt:
  "index (appendAt m k v) k' = (if k' = k then index m k @ [v] else index m k')"
  by (simp add: index_def appendAt_def update_conv')

lemma appendAt_not_Nil: "appendAt m k v \<noteq> []"
  by (cases m) (simp_all add: appendAt_def)

section \<open>Verification: the blocker buckets of the classifier\<close>

lemma hasFlag_loop_iff:
  "hasFlag_loop fs name v = (\<exists>f \<in> set fs. Flag.Name f = name \<and> Flag.Status f = v)"
  by (induction fs) auto

lemma hasFlag_carriesFlag: "hasFlag b name v = carriesFlag b name v"
  by (simp add: hasFlag_def carriesFlag_def hasFlag_loop_iff)

lemma targetReleaseOf_resolved: "targetReleaseOf b = resolvedRelease b"
  by (cases "Bug.TargetRelease b") (simp_all add: targetReleaseOf_def resolvedRelease_def)

lemma index_keywords_other:
  "k \<notin> set ks \<Longrightarrow>
   index (fold (\<lambda>keyword m. if keyword \<in> S then appendAt m keyword i else m) ks m0) k = index m0 k"
  by (induction ks arbitrary: m0) (auto simp: index_appendAt)

lemma addSeriousKeywords_fields:
  "blockerPlus (addSeriousKeywords b r) = blockerPlus r"
  "blockerPlusIDs (addSeriousKeywords b r) = blockerPlusIDs r"
  "blockerQuestionmark (addSeriousKeywords b r) = blockerQuestionmark r"
  "blockerQuestionmarkIDs (addSeriousKeywords b r) = blockerQuestionmarkIDs r"
  "index (seriousIDs (addSeriousKeywords b r)) ''blocker+'' = index (seriousIDs r) ''blocker+''"
  "index (seriousIDs (addSeriousKeywords b r)) ''blocker?'' = index (seriousIDs r) ''blocker?''"
proof -
  have "''blocker+'' \<notin> set seriousKeywords" "''blocker?'' \<notin> set seriousKeywords"
    by (simp_all add: seriousKeywords_def)
  then show
    "index (seriousIDs (addSeriousKeywords b r)) ''blocker+'' = index (seriousIDs r) ''blocker+''"
    "index (seriousIDs (addSeriousKeywords b r)) ''blocker?'' = index (seriousIDs r) ''blocker?''"
    by (simp_all add: addSeriousKeywords_def index_keywords_other)
qed (simp_all add: addSeriousKeywords_def)

lemma countStale_fields:
  "blockerPlus (countStale b r) = blockerPlus r"
  "blockerPlusIDs (countStale b r) = blockerPlusIDs r"
  "blockerQuestionmark (countStale b r) = blockerQuestionmark r"
  "blockerQuestionmarkIDs (countStale b r) = blockerQuestionmarkIDs r"
  "seriousIDs (countStale b r) = seriousIDs r"
  by (simp_all add: countStale_def)

lemma countSeverityPriority_fields:
  "blockerPlus (countSeverityPriority b r) = blockerPlus r"
  "blockerPlusIDs (countSeverityPriority b r) = blockerPlusIDs r"
  "blockerQuestionmark (countSeverityPriority b r) = blockerQuestionmark r"
  "blockerQuestionmarkIDs (countSeverityPriority b r) = blockerQuestionmarkIDs r"
  "seriousIDs (countSeverityPriority b r) = seriousIDs r"
  by (simp_all add: countSeverityPriority_def)

lemma addUrgent_fields:
  "blockerPlus (addUrgent F b r) = blockerPlus r"
  "blockerPlusIDs (addUrgent F b r) = blockerPlusIDs r"
  "blockerQuestionmark (addUrgent F b r) = blockerQuestionmark r"
  "blockerQuestionmarkIDs (addUrgent F b r) = blockerQuestionmarkIDs r"
  "seriousIDs (addUrgent F b r) = seriousIDs r"
  by (simp_all add: addUrgent_def)

lemma addNeedUpcomingSprint_fields:
  "blockerPlus (addNeedUpcomingSprint F b r) = blockerPlus r"
  "blockerPlusIDs (addNeedUpcomingSprint F b r) = blockerPlusIDs r"
  "blockerQuestionmark (addNeedUpcomingSprint F b r) = blockerQuestionmark r"
  "blockerQuestionmarkIDs (addNeedUpcomingSprint F b r) = blockerQuestionmarkIDs r"
  "seriousIDs (addNeedUpcomingSprint F b r) = seriousIDs r"
  by (simp_all add: addNeedUpcomingSprint_def)

lemma addToTriage_fields:
  "blockerPlus (addToTriage F c t b r) = blockerPlus r"
  "blockerPlusIDs (addToTriage F c t b r) = blockerPlusIDs r"
  "blockerQuestionmark (addToTriage F c t b r) = blockerQuestionmark r"
  "blockerQuestionmarkIDs (addToTriage F c t b r) = blockerQuestionmarkIDs r"
  "seriousIDs (addToTriage F c t b r) = seriousIDs r"
  by (simp_all add: addToTriage_def)

lemma countCurrentRelease_fields:
  "blockerPlus (countCurrentRelease c t r) = blockerPlus r"
  "blockerPlusIDs (countCurrentRelease c t r) = blockerPlusIDs r"
  "blockerQuestionmark (countCurrentRelease c t r) = blockerQuestionmark r"
  "blockerQuestionmarkIDs (countCurrentRelease c t r) = blockerQuestionmarkIDs r"
  "seriousIDs (countCurrentRelease c t r) = seriousIDs r"
  by (simp_all add: countCurrentRelease_def)

lemma addBlockerPlus_fields:
  "blockerPlus (addBlockerPlus F c (targetReleaseOf b) b r) =
     blockerPlus r @ (if blockerGate ''+'' c b then [F b] else [])"
  "blockerPlusIDs (addBlockerPlus F c (targetReleaseOf b) b r) =
     blockerPlusIDs r @ (if blockerGate ''+'' c b then [ID b] else [])"
  "blockerQuestionmark (addBlockerPlus F c t b r) = blockerQuestionmark r"
  "blockerQuestionmarkIDs (addBlockerPlus F c t b r) = blockerQuestionmarkIDs r"
  "index (seriousIDs (addBlockerPlus F c (targetReleaseOf b) b r)) ''blocker+'' =
     index (seriousIDs r) ''blocker+'' @ (if blockerGate ''+'' c b then [ID b] else [])"
  "index (seriousIDs (addBlockerPlus F c t b r)) ''blocker?'' = index (seriousIDs r) ''blocker?''"
  by (simp_all add: addBlockerPlus_def blockerGate_def hasFlag_carriesFlag
      targetReleaseOf_resolved index_appendAt)

lemma addBlockerQuestionmark_fields:
  "blockerQuestionmark (addBlockerQuestionmark F c (targetReleaseOf b) b r) =
     blockerQuestionmark r @ (if blockerGate ''?'' c b then [F b] else [])"
  "blockerQuestionmarkIDs (addBlockerQuestionmark F c (targetReleaseOf b) b r) =
     blockerQuestionmarkIDs r @ (if blockerGate ''?'' c b then [ID b] else [])"
  "blockerPlus (addBlockerQuestionmark F c t b r) = blockerPlus r"
  "blockerPlusIDs (addBlockerQuestionmark F c t b r) = blockerPlusIDs r"
  "index (seriousIDs (addBlockerQuestionmark F c (targetReleaseOf b) b r)) ''blocker?'' =
     index (seriousIDs r) ''blocker?'' @ (if blockerGate ''?'' c b then [ID b] else [])"
  "index (seriousIDs (addBlockerQuestionmark F c t b r)) ''blocker+'' = index (seriousIDs r) ''blocker+''"
  by (simp_all add: addBlockerQuestionmark_def blockerGate_def hasFlag_carriesFlag
      targetReleaseOf_resolved index_appendAt)

lemmas blocker_fields = addSeriousKeywords_fields countStale_fields countSeverityPriority_fields
  addUrgent_fields addNeedUpcomingSprint_fields addToTriage_fields countCurrentRelease_fields
  addBlockerPlus_fields addBlockerQuestionmark_fields

lemma summarizeBug_blocker:
  "blockerPlus (summarizeBug F c r b) = blockerPlus r @ (if blockerGate ''+'' c b then [F b] else [])"
  "blockerPlusIDs (summarizeBug F c r b) = blockerPlusIDs r @ (if blockerGate ''+'' c b then [ID b] else [])"
  "index (seriousIDs (summarizeBug F c r b)) ''blocker+'' =
     index (seriousIDs r) ''blocker+'' @ (if blockerGate ''+'' c b then [ID b] else [])"
  "blockerQuestionmark (summarizeBug F c r b) =
     blockerQuestionmark r @ (if blockerGate ''?'' c b then [F b] else [])"
  "blockerQuestionmarkIDs (summarizeBug F c r b) =
     blockerQuestionmarkIDs r @ (if blockerGate ''?'' c b then [ID b] else [])"
  "index (seriousIDs (summarizeBug F c r b)) ''blocker?'' =
     index (seriousIDs r) ''blocker?'' @ (if blockerGate ''?'' c b then [ID b] else [])"
  unfolding summarizeBug_def Let_def by (simp_all only: blocker_fields)

lemma fold_summarizeBug_blocker:
  "blockerPlus (fold (\<lambda>bug r. summarizeBug F c r bug) bugs r) =
     blockerPlus r @ map F (filter (blockerGate ''+'' c) bugs)"
  "blockerPlusIDs (fold (\<lambda>bug r. summarizeBug F c r bug) bugs r) =
     blockerPlusIDs r @ map ID (filter (blockerGate ''+'' c) bugs)"
  "index (seriousIDs (fold (\<lambda>bug r. summarizeBug F c r bug) bugs r)) ''blocker+'' =
     index (seriousIDs r) ''blocker+'' @ map ID (filter (blockerGate ''+'' c) bugs)"
  "blockerQuestionmark (fold (\<lambda>bug r. summarizeBug F c r bug) bugs r) =
     blockerQuestionmark r @ map F (filter (blockerGate ''?'' c) bugs)"
  "blockerQuestionmarkIDs (fold (\<lambda>bug r. summarizeBug F c r bug) bugs r) =
     blockerQuestionmarkIDs r @ map ID (filter (blockerGate ''?'' c) bugs)"
  "index (seriousIDs (fold (\<lambda>bug r. summarizeBug F c r bug) bugs r)) ''blocker?'' =
     index (seriousIDs r) ''blocker?'' @ map ID (filter (blockerGate ''?'' c) bugs)"
  by (induction bugs arbitrary: r; simp add: summarizeBug_blocker)+

lemma emptySummary_fields:
  "blockerPlus emptySummary = []" "blockerPlusIDs emptySummary = []"
  "blockerQuestionmark emptySummary = []" "blockerQuestionmarkIDs emptySummary = []"
  "index (seriousIDs emptySummary) k = []"
  by (simp_all add: emptySummary_def index_def)

text \<open>
  Claim C9. For every issue list, the blocker+ bucket (identifiers and display lines) and the
  entry of the serious-keyword map under the key \<open>blocker+\<close> hold exactly the issues,
  in input order, that carry a flag named blocker with value \<open>+\<close> and whose resolved
  release is the reference release or the sentinel; likewise for \<open>blocker?\<close> with the
  value \<open>?\<close>. For an issue with an empty target-release list the release gate is
  satisfied, so the rule reduces to the presence of the flag.
\<close>

theorem blocker_buckets:
  "blockerPlusIDs (summarizeBugs F reference bugs) = map ID (filter (blockerGate ''+'' reference) bugs) \<and>
   blockerPlus (summarizeBugs F reference bugs) = map F (filter (blockerGate ''+'' reference) bugs) \<and>
   index (seriousIDs (summarizeBugs F reference bugs)) ''blocker+'' =
     map ID (filter (blockerGate ''+'' reference) bugs) \<and>
   blockerQuestionmarkIDs (summarizeBugs F reference bugs) =
     map ID (filter (blockerGate ''?'' reference) bugs) \<and>
   blockerQuestionmark (summarizeBugs F reference bugs) =
     map F (filter (blockerGate ''?'' reference) bugs) \<and>
   index (seriousIDs (summarizeBugs F reference bugs)) ''blocker?'' =
     map ID (filter (blockerGate ''?'' reference) bugs) \<and>
   (Bug.TargetRelease b = [] \<longrightarrow> blockerGate v reference b = carriesFlag b ''blocker'' v)"
  by (simp add: summarizeBugs_def fold_summarizeBug_blocker emptySummary_fields
      blockerGate_def resolvedRelease_def)

theorem blocker_buckets_witness:
  "Bug.TargetRelease (blankBug\<lparr>ID := 7, Flags := [\<lparr>Name = ''blocker'', Status = ''+''\<rparr>]\<rparr>) = [] \<and>
   blockerGate ''+'' ''4.5'' (blankBug\<lparr>ID := 7, Flags := [\<lparr>Name = ''blocker'', Status = ''+''\<rparr>]\<rparr>) \<and>
   blockerPlusIDs (summarizeBugs (\<lambda>b. ''line'') ''4.5''
     [blankBug\<lparr>ID := 7, Flags := [\<lparr>Name = ''blocker'', Status = ''+''\<rparr>]\<rparr>,
      blankBug\<lparr>ID := 8, Bug.TargetRelease := [''4.4''], Flags := [\<lparr>Name = ''blocker'', Status = ''+''\<rparr>]\<rparr>,
      blankBug\<lparr>ID := 9, Bug.TargetRelease := [''4.5''], Flags := [\<lparr>Name = ''blocker'', Status = ''?''\<rparr>]\<rparr>]) = [7] \<and>
   index (seriousIDs (summarizeBugs (\<lambda>b. ''line'') ''4.5''
     [blankBug\<lparr>ID := 7, Flags := [\<lparr>Name = ''blocker'', Status = ''+''\<rparr>]\<rparr>,
      blankBug\<lparr>ID := 8, Bug.TargetRelease := [''4.4''], Flags := [\<lparr>Name = ''blocker'', Status = ''+''\<rparr>]\<rparr>,
      blankBug\<lparr>ID := 9, Bug.TargetRelease := [''4.5''], Flags := [\<lparr>Name = ''blocker'', Status = ''?''\<rparr>]\<rparr>])) ''blocker?'' = [9]"
  using blocker_buckets [of "\<lambda>b. ''line''" "''4.5''"
     "[blankBug\<lparr>ID := 7, Flags := [\<lparr>Name = ''blocker'', Status = ''+''\<rparr>]\<rparr>,
      blankBug\<lparr>ID := 8, Bug.TargetRelease := [''4.4''], Flags := [\<lparr>Name = ''blocker'', Status = ''+''\<rparr>]\<rparr>,
      blankBug\<lparr>ID := 9, Bug.TargetRelease := [''4.5''], Flags := [\<lparr>Name = ''blocker'', Status = ''?''\<rparr>]\<rparr>]"
     "blankBug\<lparr>ID := 7, Flags := [\<lparr>Name = ''blocker'', Status = ''+''\<rparr>]\<rparr>" "''+''"]
  by (simp add: blockerGate_def carriesFlag_def resolvedRelease_def blankBug_def)

section \<open>Verification: the escalation aggregator\<close>

lemma map_of_appendAt:
  "map_of (appendAt m k v) k' = (if k' = k then Some (index m k @ [v]) else map_of m k')"
  by (simp add: appendAt_def update_conv')

lemma index_Nil: "index [] k = []"
  by (simp add: index_def)

lemma customerCases_loop_iff:
  "customerCases_loop ebs = (\<exists>eb \<in> set ebs. ExternalBugType.Type (ExternalBug.Type eb) = ''SFDC'')"
  by (induction ebs) auto

lemma attributeLead_fields:
  "assigned (attributeLead cfg b agg) = assigned agg"
  "silenced (attributeLead cfg b agg) = silenced agg"
  by (simp_all add: attributeLead_def Let_def split: list.split)

lemma aggregateBug_eligible_iff:
  "aggregateBug cfg agg b =
     (if eligible b
      then attributeLead cfg b (agg\<lparr>assigned := appendAt (assigned agg) (AssignedTo b) b\<rparr>)
      else if Severity b = ''urgent'' \<and> Priority b \<noteq> ''unspecified''
      then agg\<lparr>silenced := silenced agg @ [b]\<rparr>
      else agg)"
  unfolding aggregateBug_def Let_def eligible_def hasCustomerCase_def customerCases_loop_iff ..

lemma aggregateBug_assigned:
  "assigned (aggregateBug cfg agg b) =
     (if eligible b then appendAt (assigned agg) (AssignedTo b) b else assigned agg)"
  by (simp add: aggregateBug_eligible_iff attributeLead_fields)

lemma aggregateBug_silenced:
  "silenced (aggregateBug cfg agg b) = silenced agg @ (if silencedRule b then [b] else [])"
  by (simp add: aggregateBug_eligible_iff attributeLead_fields silencedRule_def)

lemma fold_aggregateBug_assigned:
  "index (assigned (fold (\<lambda>b agg. aggregateBug cfg agg b) bugs agg)) a =
     index (assigned agg) a @ filter (\<lambda>b. eligible b \<and> AssignedTo b = a) bugs"
  by (induction bugs arbitrary: agg) (auto simp: aggregateBug_assigned index_appendAt)

lemma fold_aggregateBug_assigned_key:
  "(map_of (assigned (fold (\<lambda>b agg. aggregateBug cfg agg b) bugs agg)) a = None) =
     (map_of (assigned agg) a = None \<and> filter (\<lambda>b. eligible b \<and> AssignedTo b = a) bugs = [])"
  by (induction bugs arbitrary: agg) (auto simp: aggregateBug_assigned map_of_appendAt)

lemma fold_aggregateBug_silenced:
  "silenced (fold (\<lambda>b agg. aggregateBug cfg agg b) bugs agg) =
     silenced agg @ filter silencedRule bugs"
  by (induction bugs arbitrary: agg) (auto simp: aggregateBug_silenced)

text \<open>
  Claim C4. For every issue list and every assignee, the entry of \<open>assigned\<close> under that
  assignee holds exactly the issues of that assignee, in input order, whose escalation
  indicator is \<open>Yes\<close>, or which have a customer case (type \<open>SFDC\<close>) and priority urgent,
  or which have such a case, severity urgent and priority unspecified; the assignee has no
  entry exactly when there is no such issue. The silenced list holds exactly the remaining
  issues with severity urgent and a priority other than unspecified.
\<close>

theorem escalation_buckets:
  "index (assigned (aggregate cfg bugs)) a = filter (\<lambda>b. eligible b \<and> AssignedTo b = a) bugs \<and>
   (map_of (assigned (aggregate cfg bugs)) a = None) =
     (filter (\<lambda>b. eligible b \<and> AssignedTo b = a) bugs = []) \<and>
   silenced (aggregate cfg bugs) = filter silencedRule bugs"
  by (simp add: aggregate_def fold_aggregateBug_assigned fold_aggregateBug_assigned_key
      fold_aggregateBug_silenced emptyAggregation_def index_Nil)

section \<open>Verification: the empty escalation report\<close>

text \<open>
  The per-lead map: an eligible issue goes under the lead of its primary component, if it
  has one; the map is empty exactly when no eligible issue has such a lead.
\<close>

lemma leadsBugs_attributeLead:
  "leadsBugs (attributeLead cfg b agg) =
     (if leadOf cfg b = [] then leadsBugs agg else appendAt (leadsBugs agg) (leadOf cfg b) b)"
  by (simp add: attributeLead_def leadOf_def Let_def split: list.split option.split)

lemma leadsBugs_aggregateBug:
  "leadsBugs (aggregateBug cfg agg b) =
     (if eligible b \<and> leadOf cfg b \<noteq> [] then appendAt (leadsBugs agg) (leadOf cfg b) b
      else leadsBugs agg)"
  by (simp add: aggregateBug_eligible_iff leadsBugs_attributeLead)

lemma fold_aggregateBug_leadsBugs:
  "index (leadsBugs (fold (\<lambda>b agg. aggregateBug cfg agg b) bugs agg)) lead =
     index (leadsBugs agg) lead @
     filter (\<lambda>b. eligible b \<and> leadOf cfg b \<noteq> [] \<and> leadOf cfg b = lead) bugs"
  by (induction bugs arbitrary: agg) (auto simp: leadsBugs_aggregateBug index_appendAt)

lemma fold_aggregateBug_no_leads:
  "(leadsBugs (fold (\<lambda>b agg. aggregateBug cfg agg b) bugs agg) = []) =
     (leadsBugs agg = [] \<and> (\<forall>b \<in> set bugs. eligible b \<longrightarrow> leadOf cfg b = []))"
  by (induction bugs arbitrary: agg) (auto simp: leadsBugs_aggregateBug appendAt_not_Nil)

lemma leadsBugs_empty_iff:
  "(leadsBugs (aggregate cfg bugs) = []) = (\<forall>b \<in> set bugs. eligible b \<longrightarrow> leadOf cfg b = [])"
  by (simp add: aggregate_def fold_aggregateBug_no_leads emptyAggregation_def)

lemma leadsBugs_entries:
  "index (leadsBugs (aggregate cfg bugs)) lead =
     filter (\<lambda>b. eligible b \<and> leadOf cfg b \<noteq> [] \<and> leadOf cfg b = lead) bugs"
  by (simp add: aggregate_def fold_aggregateBug_leadsBugs emptyAggregation_def index_Nil)

text \<open>
  Claim C10. Whenever the tracker answers and both the per-lead map and the silenced list
  of the aggregation are empty, the escalation report is the empty string and the cycle
  sends no channel message, whatever the map \<open>assigned\<close> holds. The example has two
  escalated issues of one assignee in a component without a lead: the assignee has more
  than one escalation, and nothing is reported.
\<close>

theorem empty_report:
  assumes "search (getSeverityUrgentBugs_query cfg components) = Inr bugs"
    and "leadsBugs (aggregate cfg bugs) = []"
    and "silenced (aggregate cfg bugs) = []"
  shows "escalation_Report env search cfg components = Inr [] \<and>
         escalation_sync env search deliver cfg components = (None, [])"
  using assms by (simp add: escalation_Report_def escalation_sync_def getSeverityUrgentBugs_def)

lemma aggregate_twoEscalations:
  "aggregate noLeadConfig twoEscalations =
     \<lparr>assigned = [(''alice@example.com'', twoEscalations)], silenced = [], leadsBugs = [],
      missingComponents = {}\<rparr>"
  by (simp add: aggregate_def aggregateBug_def attributeLead_def noLeadConfig_def
      twoEscalations_def blankBug_def emptyAggregation_def appendAt_def index_def Let_def)

theorem empty_report_witness:
  "index (assigned (aggregate noLeadConfig twoEscalations)) ''alice@example.com'' = twoEscalations \<and>
   length twoEscalations = 2 \<and>
   escalation_Report plainEnv (\<lambda>q. Inr twoEscalations) noLeadConfig [''etcd''] = Inr [] \<and>
   escalation_sync plainEnv (\<lambda>q. Inr twoEscalations) (\<lambda>m. None) noLeadConfig [''etcd''] = (None, [])"
  using empty_report [of "\<lambda>q. Inr twoEscalations" noLeadConfig "[''etcd'']" twoEscalations
      plainEnv "\<lambda>m. None"]
  by (simp add: aggregate_twoEscalations index_def) (simp add: twoEscalations_def)

section \<open>Verification: the blockers report and the per-person grouping\<close>

lemma addSeriousKeywords_others:
  "toTriage (addSeriousKeywords b r) = toTriage r"
  "toTriageIDs (addSeriousKeywords b r) = toTriageIDs r"
  "urgent (addSeriousKeywords b r) = urgent r"
  "urgentIDs (addSeriousKeywords b r) = urgentIDs r"
  by (simp_all add: addSeriousKeywords_def)

lemma countStale_others:
  "toTriage (countStale b r) = toTriage r"
  "toTriageIDs (countStale b r) = toTriageIDs r"
  "urgent (countStale b r) = urgent r"
  "urgentIDs (countStale b r) = urgentIDs r"
  by (simp_all add: countStale_def)

lemma countSeverityPriority_others:
  "toTriage (countSeverityPriority b r) = toTriage r"
  "toTriageIDs (countSeverityPriority b r) = toTriageIDs r"
  "urgent (countSeverityPriority b r) = urgent r"
  "urgentIDs (countSeverityPriority b r) = urgentIDs r"
  by (simp_all add: countSeverityPriority_def)

lemma addNeedUpcomingSprint_others:
  "toTriage (addNeedUpcomingSprint F b r) = toTriage r"
  "toTriageIDs (addNeedUpcomingSprint F b r) = toTriageIDs r"
  "urgent (addNeedUpcomingSprint F b r) = urgent r"
  "urgentIDs (addNeedUpcomingSprint F b r) = urgentIDs r"
  by (simp_all add: addNeedUpcomingSprint_def)

lemma addBlockerPlus_others:
  "toTriage (addBlockerPlus F c t b r) = toTriage r"
  "toTriageIDs (addBlockerPlus F c t b r) = toTriageIDs r"
  "urgent (addBlockerPlus F c t b r) = urgent r"
  "urgentIDs (addBlockerPlus F c t b r) = urgentIDs r"
  by (simp_all add: addBlockerPlus_def)

lemma addBlockerQuestionmark_others:
  "toTriage (addBlockerQuestionmark F c t b r) = toTriage r"
  "toTriageIDs (addBlockerQuestionmark F c t b r) = toTriageIDs r"
  "urgent (addBlockerQuestionmark F c t b r) = urgent r"
  "urgentIDs (addBlockerQuestionmark F c t b r) = urgentIDs r"
  by (simp_all add: addBlockerQuestionmark_def)

lemma countCurrentRelease_others:
  "toTriage (countCurrentRelease c t r) = toTriage r"
  "toTriageIDs (countCurrentRelease c t r) = toTriageIDs r"
  "urgent (countCurrentRelease c t r) = urgent r"
  "urgentIDs (countCurrentRelease c t r) = urgentIDs r"
  by (simp_all add: countCurrentRelease_def)

lemma addUrgent_others:
  "toTriage (addUrgent F b r) = toTriage r"
  "toTriageIDs (addUrgent F b r) = toTriageIDs r"
  "urgent (addUrgent F b r) = urgent r @ (if urgentRule b then [F b] else [])"
  "urgentIDs (addUrgent F b r) = urgentIDs r @ (if urgentRule b then [ID b] else [])"
  by (simp_all add: addUrgent_def urgentRule_def)

lemma addToTriage_others:
  "urgent (addToTriage F c t b r) = urgent r"
  "urgentIDs (addToTriage F c t b r) = urgentIDs r"
  "toTriage (addToTriage F c (targetReleaseOf b) b r) =
     toTriage r @ (if triageRule c b then [F b] else [])"
  "toTriageIDs (addToTriage F c (targetReleaseOf b) b r) =
     toTriageIDs r @ (if triageRule c b then [ID b] else [])"
  by (auto simp: addToTriage_def triageRule_def targetReleaseOf_resolved)

lemmas triage_urgent_fields = addSeriousKeywords_others countStale_others countSeverityPriority_others addNeedUpcomingSprint_others addBlockerPlus_others addBlockerQuestionmark_others countCurrentRelease_others addUrgent_others addToTriage_others

lemma summarizeBug_triage_urgent:
  "toTriage (summarizeBug F c r b) = toTriage r @ (if triageRule c b then [F b] else [])"
  "toTriageIDs (summarizeBug F c r b) = toTriageIDs r @ (if triageRule c b then [ID b] else [])"
  "urgent (summarizeBug F c r b) = urgent r @ (if urgentRule b then [F b] else [])"
  "urgentIDs (summarizeBug F c r b) = urgentIDs r @ (if urgentRule b then [ID b] else [])"
  unfolding summarizeBug_def Let_def by (simp_all only: triage_urgent_fields)

lemma fold_summarizeBug_triage_urgent:
  "toTriage (fold (\<lambda>bug r. summarizeBug F c r bug) bugs r) =
     toTriage r @ map F (filter (triageRule c) bugs)"
  "toTriageIDs (fold (\<lambda>bug r. summarizeBug F c r bug) bugs r) =
     toTriageIDs r @ map ID (filter (triageRule c) bugs)"
  "urgent (fold (\<lambda>bug r. summarizeBug F c r bug) bugs r) =
     urgent r @ map F (filter urgentRule bugs)"
  "urgentIDs (fold (\<lambda>bug r. summarizeBug F c r bug) bugs r) =
     urgentIDs r @ map ID (filter urgentRule bugs)"
  by (induction bugs arbitrary: r; simp add: summarizeBug_triage_urgent)+

lemma summarizeBugs_triage_urgent:
  "toTriage (summarizeBugs F c bugs) = map F (filter (triageRule c) bugs)"
  "toTriageIDs (summarizeBugs F c bugs) = map ID (filter (triageRule c) bugs)"
  "urgent (summarizeBugs F c bugs) = map F (filter urgentRule bugs)"
  "urgentIDs (summarizeBugs F c bugs) = map ID (filter urgentRule bugs)"
  by (simp_all add: summarizeBugs_def fold_summarizeBug_triage_urgent emptySummary_def)

lemma summarizeBugs_blocker:
  "blockerPlus (summarizeBugs F c bugs) = map F (filter (blockerGate ''+'' c) bugs)"
  "blockerPlusIDs (summarizeBugs F c bugs) = map ID (filter (blockerGate ''+'' c) bugs)"
  by (simp_all add: summarizeBugs_def fold_summarizeBug_blocker emptySummary_fields)

lemma rangeMap_Nil: "rangeMap rank [] = []"
  by (simp add: rangeMap_def)

lemma perPerson_loop_empty_index: "perPerson_loop Map.empty lines i ids acc = Inr acc"
  by (induction ids arbitrary: i acc) (auto split: prod.splits)

lemma perPerson_empty_index: "perPerson Map.empty ids lines = Inr ([], [])"
  by (simp add: perPerson_def perPerson_loop_empty_index)

lemma groupings_empty_index:
  "groupings Map.empty summary =
     Inr \<lparr>perPersonToTriageIDs = [], perPersonToTriage = [],
          perPersonBlockerPlusIDs = [], perPersonBlockerPlus = [],
          perPersonUrgentIDs = [], perPersonUrgent = []\<rparr>"
  by (simp add: groupings_def perPerson_empty_index)

lemma notifyPersons_Nil: "notifyPersons env intro sfx [] outro = []"
  by (simp add: notifyPersons_def rangeMap_Nil)

lemma notify_no_issues:
  "notify env config channelReport summary [] =
     Inr \<lparr>grouped = \<lparr>perPersonToTriageIDs = [], perPersonToTriage = [],
                      perPersonBlockerPlusIDs = [], perPersonBlockerPlus = [],
                      perPersonUrgentIDs = [], perPersonUrgent = []\<rparr>,
          emails = [], channel = [channelReport]\<rparr>"
  by (simp add: notify_def groupings_empty_index notifyPersons_Nil)

lemma blockers_Report_cases:
  "blockers_Report env config components =
     (case Search env (getBugsQuery config components ([''---''] @ TargetReleases (Release config))) of
        Inl err \<Rightarrow> Inl err
      | Inr found \<Rightarrow>
          Inr (''\<newline>:bug: *Today 4.x Bug Report:* :bug:\<newline>'' @
               Join (getStatsForChannel env (CurrentTargetRelease (Release config)) (length found)
                       (summarizeBugs (FormatBugMessage env) (CurrentTargetRelease (Release config)) found)
                       (getBugsQuery config components ([''---''] @ TargetReleases (Release config)))
                       (getBugsQuery config components ([''---''] @ [CurrentTargetRelease (Release config)])))
                 ''\<newline>'' @ ''\<newline>'',
               summarizeBugs (FormatBugMessage env) (CurrentTargetRelease (Release config)) found,
               []))"
  by (simp add: blockers_Report_def Let_def split: sum.split)

text \<open>
  Claim C2. Every successful call of the blockers \<open>Report\<close> returns the empty issue list,
  whatever the tracker found. The index that \<open>sync\<close> builds from it is therefore
  empty, the grouping skips every identifier, all six per-person maps are empty and no
  mail is sent. In the example the tracker finds two issues, one of them to be triaged.
\<close>

theorem report_returns_no_issues:
  assumes "blockers_Report env config components = Inr (report, summary, bugs)"
  shows "bugs = [] \<and>
         fold (\<lambda>b m. m(ID b \<mapsto> b)) bugs Map.empty = Map.empty \<and>
         blockers_sync env config components =
           Inr \<lparr>grouped = \<lparr>perPersonToTriageIDs = [], perPersonToTriage = [],
                            perPersonBlockerPlusIDs = [], perPersonBlockerPlus = [],
                            perPersonUrgentIDs = [], perPersonUrgent = []\<rparr>,
                emails = [], channel = [report]\<rparr>"
proof -
  from assms have "bugs = []"
    by (auto simp: blockers_Report_cases split: sum.splits)
  with assms show ?thesis
    by (simp add: blockers_sync_def notify_no_issues)
qed

theorem report_returns_no_issues_witness:
  "(\<exists>report. blockers_Report (blockersEnv [triageBug, blockerBug]) noLeadConfig [''etcd''] =
      Inr (report, summarizeBugs lineOf ''4.5'' [triageBug, blockerBug], []) \<and>
    blockers_sync (blockersEnv [triageBug, blockerBug]) noLeadConfig [''etcd''] =
      Inr \<lparr>grouped = \<lparr>perPersonToTriageIDs = [], perPersonToTriage = [],
                       perPersonBlockerPlusIDs = [], perPersonBlockerPlus = [],
                       perPersonUrgentIDs = [], perPersonUrgent = []\<rparr>,
           emails = [], channel = [report]\<rparr>) \<and>
   toTriageIDs (summarizeBugs lineOf ''4.5'' [triageBug, blockerBug]) = [1]"
proof -
  have r: "blockers_Report (blockersEnv [triageBug, blockerBug]) noLeadConfig [''etcd''] =
      Inr (''\<newline>:bug: *Today 4.x Bug Report:* :bug:\<newline>\<newline>'',
           summarizeBugs lineOf ''4.5'' [triageBug, blockerBug], [])"
    by (simp add: blockers_Report_cases blockersEnv_def noLeadConfig_def)
  have t: "toTriageIDs (summarizeBugs lineOf ''4.5'' [triageBug, blockerBug]) = [1]"
    by (simp add: summarizeBugs_triage_urgent triageRule_def resolvedRelease_def triageBug_def
        blockerBug_def blankBug_def)
  from report_returns_no_issues [OF r] r t show ?thesis
    by blast
qed


lemma example_summary:
  "toTriageIDs (summarizeBugs lineOf ''4.5'' [triageBug, blockerBug]) = [1]"
  "toTriage (summarizeBugs lineOf ''4.5'' [triageBug, blockerBug]) = [''bug 1'']"
  "blockerPlusIDs (summarizeBugs lineOf ''4.5'' [triageBug, blockerBug]) = [2]"
  "blockerPlus (summarizeBugs lineOf ''4.5'' [triageBug, blockerBug]) = [''bug 2'']"
  "urgentIDs (summarizeBugs lineOf ''4.5'' [triageBug, blockerBug]) = []"
  "urgent (summarizeBugs lineOf ''4.5'' [triageBug, blockerBug]) = []"
  by (simp_all add: summarizeBugs_triage_urgent summarizeBugs_blocker triageRule_def urgentRule_def
      blockerGate_def carriesFlag_def resolvedRelease_def triageBug_def blockerBug_def
      blankBug_def lineOf_def Itoa_def digits.simps)

lemma example_index:
  "fold (\<lambda>b m. m(ID b \<mapsto> b)) [triageBug, blockerBug] Map.empty =
     [1 \<mapsto> triageBug, 2 \<mapsto> blockerBug]"
  by (simp add: triageBug_def blockerBug_def)



text \<open>
  The equation above rests on the empty index. The call that fills the blocker+ maps is
  written \<^verbatim>\<open>perPerson(summary.toTriageIDs, summary.toTriage)\<close>, as is the call before it.
  The lemma records what the statements of \<open>sync\<close> after \<open>Report\<close> compute from an issue
  list that holds both example issues, which \<open>sync\<close> never passes to them: the blocker+
  maps and the blocker+ mail then name the to-triage issue 1 of the first assignee, while
  the grouper applied to the blocker+ lists yields issue 2 of the second assignee.
\<close>

lemma grouping_over_populated_index:
  "notify (blockersEnv []) noLeadConfig ''report''
     (summarizeBugs lineOf ''4.5'' [triageBug, blockerBug]) [triageBug, blockerBug] =
     Inr \<lparr>grouped =
            \<lparr>perPersonToTriageIDs = [(''alice@example.com'', [1])],
             perPersonToTriage = [(''alice@example.com'', [''bug 1''])],
             perPersonBlockerPlusIDs = [(''alice@example.com'', [1])],
             perPersonBlockerPlus = [(''alice@example.com'', [''bug 1''])],
             perPersonUrgentIDs = [], perPersonUrgent = []\<rparr>,
          emails =
            [(''alice@example.com'', triageIntro 1 [] @ ''bug 1'' @ triageOutro),
             (''alice@example.com'',
              blockerIntro 1 ''for the 4.5 release'' @ ''bug 1'' @ blockerOutro)],
          channel = [''report'']\<rparr> \<and>
   perPerson (fold (\<lambda>b m. m(ID b \<mapsto> b)) [triageBug, blockerBug] Map.empty)
     (blockerPlusIDs (summarizeBugs lineOf ''4.5'' [triageBug, blockerBug]))
     (blockerPlus (summarizeBugs lineOf ''4.5'' [triageBug, blockerBug])) =
     Inr ([(''bob@example.com'', [2])], [(''bob@example.com'', [''bug 2''])])"
  by (simp add: notify_def example_index groupings_def perPerson_def example_summary
      appendAt_def index_def)
    (simp add: triageBug_def blockerBug_def notifyPersons_def rangeMap_def blockersEnv_def
      noLeadConfig_def)

section \<open>Verification: the query of the escalation cycle\<close>

text \<open>
  Claim C3 says that the query of the escalation cycle restricts its results to severity
  urgent. It does not: the example issue has severity high, matches the query whatever the
  predicates mean, and the aggregator puts it under its assignee.
\<close>

theorem escalation_query_admits_other_severities:
  "matches (\<lambda>a b. True) (getSeverityUrgentBugs_query noLeadConfig [''etcd'']) escalatedHighBug \<and>
   Severity escalatedHighBug \<noteq> ''urgent'' \<and>
   index (assigned (aggregate noLeadConfig [escalatedHighBug])) ''alice@example.com'' =
     [escalatedHighBug]"
  by (simp add: matches_def oneOf_def anyOf_def getSeverityUrgentBugs_query_def
      escalatedHighBug_def blankBug_def aggregate_def aggregateBug_def attributeLead_def
      noLeadConfig_def emptyAggregation_def appendAt_def index_def Let_def)

text \<open>
  Claim C3, amended. The query of the escalation cycle has no predicate list and restricts
  classification, product, status and component only: whether an issue matches does not
  depend on its severity. (The aggregator tests the severity itself, in its third
  eligibility alternative and in the rule of the silenced list.)
\<close>

theorem escalation_query_restrictions:
  "Advanced (getSeverityUrgentBugs_query config components) = [] \<and>
   matches holds (getSeverityUrgentBugs_query config components) (b\<lparr>Severity := s\<rparr>) =
     matches holds (getSeverityUrgentBugs_query config components) b \<and>
   matches holds (getSeverityUrgentBugs_query config components) b =
     (Bug.Classification b = ''Red Hat'' \<and>
      Bug.Product b = ''OpenShift Container Platform'' \<and>
      Bug.Status b \<in> {''NEW'', ''ASSIGNED'', ''POST'', ''ON_DEV''} \<and>
      (components = [] \<or> (\<exists>c \<in> set (Bug.Component b). c \<in> set components)))"
  by (simp add: matches_def oneOf_def anyOf_def getSeverityUrgentBugs_query_def)

section \<open>Verification: decimal numbers\<close>

lemma digit_facts:
  "\<forall>n \<in> set [0 ..< 10].
     digitValue (''0123456789'' ! n) = Some n \<and>
     ''0123456789'' ! n \<noteq> CHR ''-'' \<and> ''0123456789'' ! n \<noteq> CHR ''+''"
  by (simp add: upt_rec digitValue_def)

lemma digitValue_digit: "n < 10 \<Longrightarrow> digitValue (''0123456789'' ! n) = Some n"
  using digit_facts by simp

lemma digit_not_sign:
  "n < 10 \<Longrightarrow> ''0123456789'' ! n \<noteq> CHR ''-'' \<and> ''0123456789'' ! n \<noteq> CHR ''+''"
  using digit_facts by simp

lemma parseDigits_snoc:
  "parseDigits acc (ds @ [c]) =
     (case parseDigits acc ds of
        None \<Rightarrow> None
      | Some m \<Rightarrow> (case digitValue c of None \<Rightarrow> None | Some d \<Rightarrow> Some (10 * m + d)))"
  by (induction ds arbitrary: acc) (auto split: option.splits)

lemma parseDigits_digits: "parseDigits 0 (digits n) = Some n"
proof (induction n rule: digits.induct)
  case (1 n)
  show ?case
  proof (cases "n < 10")
    case True
    then show ?thesis
      by (subst digits.simps) (simp add: digitValue_digit)
  next
    case False
    with 1 have "parseDigits 0 (digits (n div 10)) = Some (n div 10)"
      by simp
    with False show ?thesis
      by (subst digits.simps) (simp add: parseDigits_snoc digitValue_digit)
  qed
qed

lemma digits_not_Nil: "digits n \<noteq> []"
  by (subst digits.simps) simp

lemma hd_digits_not_sign: "hd (digits n) \<noteq> CHR ''-'' \<and> hd (digits n) \<noteq> CHR ''+''"
proof (induction n rule: digits.induct)
  case (1 n)
  show ?case
  proof (cases "n < 10")
    case True
    then show ?thesis
      by (subst (1 2) digits.simps) (simp add: digit_not_sign)
  next
    case False
    with 1 digits_not_Nil [of "n div 10"] show ?thesis
      by (subst (1 2) digits.simps) simp
  qed
qed

lemma unsigned_split:
  "s \<noteq> [] \<Longrightarrow> hd s \<noteq> CHR ''-'' \<and> hd s \<noteq> CHR ''+'' \<Longrightarrow>
   (case s of
      [] \<Rightarrow> (False, [])
    | c # cs \<Rightarrow> if c = CHR ''-'' then (True, cs)
              else if c = CHR ''+'' then (False, cs) else (False, s)) = (False, s)"
  by (cases s) auto

lemma Atoi_digits: "int n \<le> 2 ^ 63 - 1 \<Longrightarrow> Atoi (digits n) = Inr (int n)"
  by (simp add: Atoi_def unsigned_split [OF digits_not_Nil hd_digits_not_sign]
      parseDigits_digits digits_not_Nil)

lemma Atoi_Itoa: "- (2 ^ 63) \<le> n \<Longrightarrow> n \<le> 2 ^ 63 - 1 \<Longrightarrow> Atoi (Itoa n) = Inr n"
proof (cases "n < 0")
  case True
  assume "- (2 ^ 63) \<le> n"
  with True digits_not_Nil [of "nat (- n)"] show ?thesis
    by (simp add: Itoa_def Atoi_def parseDigits_digits)
next
  case False
  assume "n \<le> 2 ^ 63 - 1"
  with False show ?thesis
    by (simp add: Itoa_def Atoi_digits)
qed

lemma Itoa_not_Nil: "Itoa n \<noteq> []"
  by (simp add: Itoa_def digits_not_Nil)

lemma parseState_Itoa: "- (2 ^ 63) \<le> n \<Longrightarrow> n \<le> 2 ^ 63 - 1 \<Longrightarrow> parseState (Itoa n) = n"
  by (simp add: parseState_def Itoa_not_Nil Atoi_Itoa)


lemma parseState_range: "- (2 ^ 63) \<le> parseState s \<and> parseState s \<le> 2 ^ 63 - 1"
  by (auto simp: parseState_def Atoi_def Let_def split: sum.splits option.splits prod.splits if_splits)

section \<open>Verification: the new-bug cycle\<close>

lemma fold_max_Max: "fold max xs (l::int) = Max (insert l (set xs))"
  using Max.set_eq_fold [of l xs] by simp

lemma newBugs_loop_fst:
  "i \<le> 51 \<Longrightarrow>
   fst (newBugs_loop len i bs (l, ids)) = fold max (map ID (take (52 - i) bs)) l"
proof (induction bs arbitrary: i l ids)
  case Nil
  then show ?case by simp
next
  case (Cons b bs)
  show ?case
  proof (cases "i > 50")
    case True
    with Cons.prems have "i = 51" by simp
    then show ?thesis by (simp add: max_def)
  next
    case False
    then have "52 - i = Suc (52 - Suc i)" "Suc i \<le> 51" by simp_all
    with False Cons.IH [of "Suc i"] show ?thesis
      by (simp add: max_def Let_def)
  qed
qed

lemma newBugs_loop_watermark:
  "fst (newBugs_loop len 0 bs (l, [])) = Max (insert l (ID ` set (take 52 bs)))"
  by (simp add: newBugs_loop_fst fold_max_Max)

lemma new_sync_read_failed:
  "getFailure env = Some e \<Longrightarrow>
   new_sync env components st =
     \<lparr>returned = Some e, store = st, persistCalls = [], queries = [], adminMessages = []\<rparr>"
  by (simp add: new_sync_def GetPersistentValue_def)

lemma cycle_failed:
  "tracker env (getNewBugs_query components l) = Inl err \<Longrightarrow>
   cycle env components l = (Some err, l, [])"
  by (simp add: cycle_def getNewBugs_def)

lemma cycle_answered:
  "tracker env (getNewBugs_query components l) = Inr found \<Longrightarrow>
   cycle env components l =
     (None, Max (insert l (ID ` set (take 52 found))),
      [''Found new bugs: '' @ Join (snd (newBugs_loop (length found) 0 found (l, []))) '', ''])"
  by (simp add: cycle_def getNewBugs_def case_prod_beta newBugs_loop_watermark)

lemma new_sync_read_ok:
  "getFailure env = None \<Longrightarrow>
   new_sync env components st =
     (case cycle env components (previousWatermark components st) of
        (err, lastID, messages) \<Rightarrow>
          \<lparr>returned = (if err = None then setFailure env else err),
           store = (case setFailure env of
                      None \<Rightarrow> st(stateKeyOf components \<mapsto> Itoa lastID)
                    | Some e \<Rightarrow> st),
           persistCalls = [(stateKeyOf components, Itoa lastID)],
           queries = [getNewBugs_query components (previousWatermark components st)],
           adminMessages = messages\<rparr>)"
  by (simp add: new_sync_def GetPersistentValue_def SetPersistentValue_def
      previousWatermark_def Let_def split: option.split prod.split)

lemma new_sync_tracker_failed:
  "getFailure env = None \<Longrightarrow>
   tracker env (getNewBugs_query components (previousWatermark components st)) = Inl err \<Longrightarrow>
   new_sync env components st =
     \<lparr>returned = Some err,
      store = (case setFailure env of
                 None \<Rightarrow> st(stateKeyOf components \<mapsto> Itoa (previousWatermark components st))
               | Some e \<Rightarrow> st),
      persistCalls = [(stateKeyOf components, Itoa (previousWatermark components st))],
      queries = [getNewBugs_query components (previousWatermark components st)],
      adminMessages = []\<rparr>"
  by (simp add: new_sync_read_ok cycle_failed)

lemma new_sync_tracker_answered:
  "getFailure env = None \<Longrightarrow>
   tracker env (getNewBugs_query components (previousWatermark components st)) = Inr found \<Longrightarrow>
   new_sync env components st =
     \<lparr>returned = setFailure env,
      store = (case setFailure env of
                 None \<Rightarrow> st(stateKeyOf components \<mapsto>
                   Itoa (Max (insert (previousWatermark components st) (ID ` set (take 52 found)))))
               | Some e \<Rightarrow> st),
      persistCalls = [(stateKeyOf components,
        Itoa (Max (insert (previousWatermark components st) (ID ` set (take 52 found)))))],
      queries = [getNewBugs_query components (previousWatermark components st)],
      adminMessages = [''Found new bugs: '' @
        Join (snd (newBugs_loop (length found) 0 found (previousWatermark components st, []))) '', '']\<rparr>"
  by (simp add: new_sync_read_ok cycle_answered)


text \<open>
  Claim C6 says that after a successful cycle the persisted watermark is the maximum of
  the previous watermark and all identifiers of the result. The loop leaves at index 51:
  with the 53 issues numbered 1 to 53 and no previous state the cycle succeeds and
  persists 52, not 53.
\<close>

theorem watermark_skips_late_issues:
  "returned (new_sync (trackerFinds manyBugs) [''etcd''] Map.empty) = None \<and>
   store (new_sync (trackerFinds manyBugs) [''etcd''] Map.empty) (stateKeyOf [''etcd'']) =
     Some ''52'' \<and>
   Itoa (max (previousWatermark [''etcd''] Map.empty) (Max (ID ` set manyBugs))) = ''53''"
proof -
  have prev: "previousWatermark [''etcd''] Map.empty = 0"
    by (simp add: previousWatermark_def parseState_def)
  have split: "manyBugs = map (\<lambda>n. blankBug\<lparr>ID := n\<rparr>) [1 .. 52] @ [blankBug\<lparr>ID := 53\<rparr>]"
    by (simp add: manyBugs_def upto_rec2)
  have len: "length [1 .. (52::int)] = 52"
    by simp
  have "take 52 manyBugs = map (\<lambda>n. blankBug\<lparr>ID := n\<rparr>) [1 .. 52]"
    by (subst split)
      (simp only: take_append length_map len take_all order.refl diff_self_eq_0 take_0 append_Nil2)
  moreover have "Max {1 .. 52 :: int} = 52" "Max {1 .. 53 :: int} = 53"
    by (rule Max_eqI; simp)+
  ultimately have "Max (insert (0::int) (ID ` set (take 52 manyBugs))) = 52"
    "Max (ID ` set manyBugs) = 53"
    by (simp_all add: image_image manyBugs_def)
  with prev show ?thesis
    by (simp add: new_sync_tracker_answered trackerFinds_def Itoa_def digits.simps)
qed

text \<open>
  Claim C6, amended. After a successful cycle the persisted watermark is the maximum of the
  previous watermark and the identifiers of the first 52 issues of the result (all of them
  when the result has at most 52); for an empty result it is the previous watermark. It is
  never below the previous watermark, and the next cycle reads it back as that number
  (identifiers being Go integers).
\<close>

theorem watermark_after_success:
  assumes "returned (new_sync env components st) = None"
  shows "\<exists>found.
           tracker env (getNewBugs_query components (previousWatermark components st)) = Inr found \<and>
           store (new_sync env components st) (stateKeyOf components) =
             Some (Itoa (Max (insert (previousWatermark components st) (ID ` set (take 52 found))))) \<and>
           (length found \<le> 52 \<longrightarrow>
              store (new_sync env components st) (stateKeyOf components) =
                Some (Itoa (Max (insert (previousWatermark components st) (ID ` set found))))) \<and>
           (found = [] \<longrightarrow>
              store (new_sync env components st) (stateKeyOf components) =
                Some (Itoa (previousWatermark components st))) \<and>
           previousWatermark components st \<le>
             Max (insert (previousWatermark components st) (ID ` set (take 52 found))) \<and>
           ((\<forall>b \<in> set found. - (2 ^ 63) \<le> ID b \<and> ID b \<le> 2 ^ 63 - 1) \<longrightarrow>
              previousWatermark components (store (new_sync env components st)) =
                Max (insert (previousWatermark components st) (ID ` set (take 52 found))))"
proof -
  let ?prev = "previousWatermark components st"
  from assms have get: "getFailure env = None"
    by (cases "getFailure env") (simp_all add: new_sync_read_failed)
  from assms get obtain found where
    found: "tracker env (getNewBugs_query components ?prev) = Inr found"
    by (cases "tracker env (getNewBugs_query components ?prev)")
      (simp_all add: new_sync_tracker_failed)
  from assms get found have set: "setFailure env = None"
    by (simp add: new_sync_tracker_answered)
  let ?w = "Max (insert ?prev (ID ` set (take 52 found)))"
  have st': "store (new_sync env components st) = st(stateKeyOf components \<mapsto> Itoa ?w)"
    using get found set by (simp add: new_sync_tracker_answered)
  have in_set: "?w \<in> insert ?prev (ID ` set (take 52 found))"
    by (rule Max_in) simp_all
  have range: "- (2 ^ 63) \<le> ?w \<and> ?w \<le> 2 ^ 63 - 1"
    if "\<forall>b \<in> set found. - (2 ^ 63) \<le> ID b \<and> ID b \<le> 2 ^ 63 - 1"
  proof (cases "?w = ?prev")
    case True
    then show ?thesis
      using parseState_range [of "case st (stateKeyOf components) of None \<Rightarrow> [] | Some s \<Rightarrow> s"]
      by (simp add: previousWatermark_def)
  next
    case False
    with in_set obtain b where "b \<in> set (take 52 found)" "?w = ID b"
      by auto
    with that show ?thesis
      by (auto dest: in_set_takeD)
  qed
  have "previousWatermark components (store (new_sync env components st)) = ?w"
    if "\<forall>b \<in> set found. - (2 ^ 63) \<le> ID b \<and> ID b \<le> 2 ^ 63 - 1"
    using range [OF that] by (simp add: st' previousWatermark_def parseState_Itoa)
  moreover have "?prev \<le> ?w"
    by (rule Max_ge) simp_all
  ultimately show ?thesis
    using found st' by auto
qed

lemma tracker_trackerFinds: "tracker (trackerFinds found) q = Inr found"
  by (simp add: trackerFinds_def)

theorem watermark_after_success_witness:
  "returned (new_sync (trackerFinds threeBugs) [''etcd''] [stateKeyOf [''etcd''] \<mapsto> ''50'']) = None \<and>
   store (new_sync (trackerFinds threeBugs) [''etcd''] [stateKeyOf [''etcd''] \<mapsto> ''50''])
     (stateKeyOf [''etcd'']) = Some ''75'' \<and>
   previousWatermark [''etcd'']
     (store (new_sync (trackerFinds threeBugs) [''etcd''] [stateKeyOf [''etcd''] \<mapsto> ''50''])) = 75 \<and>
   store (new_sync (trackerFinds []) [''etcd''] [stateKeyOf [''etcd''] \<mapsto> ''50''])
     (stateKeyOf [''etcd'']) = Some ''50''"
proof -
  let ?st = "[stateKeyOf [''etcd''] \<mapsto> ''50'']"
  have prev: "previousWatermark [''etcd''] ?st = 50"
    by (simp add: previousWatermark_def parseState_def Atoi_def digitValue_def upt_rec)
  have ok: "returned (new_sync (trackerFinds found) [''etcd''] ?st) = None" for found
    by (simp add: new_sync_tracker_answered trackerFinds_def)
  have w: "Max (insert (50::int) (ID ` set (take 52 threeBugs))) = 75"
    and r: "\<forall>b \<in> set threeBugs. - (2 ^ 63) \<le> ID b \<and> ID b \<le> 2 ^ 63 - 1"
    by (simp_all add: threeBugs_def)
  have i: "Itoa 75 = ''75''" "Itoa 50 = ''50''"
    by (simp_all add: Itoa_def digits.simps)
  from watermark_after_success [OF ok [of threeBugs]] r
  have "store (new_sync (trackerFinds threeBugs) [''etcd''] ?st) (stateKeyOf [''etcd'']) = Some ''75''"
    and "previousWatermark [''etcd''] (store (new_sync (trackerFinds threeBugs) [''etcd''] ?st)) = 75"
    by (auto simp: tracker_trackerFinds prev w i)
  moreover from watermark_after_success [OF ok [of "[]"]]
  have "store (new_sync (trackerFinds []) [''etcd''] ?st) (stateKeyOf [''etcd'']) = Some ''50''"
    by (auto simp: tracker_trackerFinds prev i)
  ultimately show ?thesis
    using ok by simp
qed


text \<open>
  Claim C7. When the store can be read and holds a non-empty string that \<open>Atoi\<close> rejects,
  the cycle starts from watermark 0: the one query it sends is the bootstrap variant, whose
  predicate is \<open>creation_ts greaterthaneq -24h\<close> (any other watermark gives
  \<open>bug_id greaterthan\<close> the watermark); the parse failure is not returned: the result is
  the tracker's error, else the error of the write, else none; and the write happens.
\<close>

theorem unparsable_state_restarts:
  assumes "getFailure env = None"
    and "st (stateKeyOf components) = Some s"
    and "s \<noteq> []"
    and "Atoi s = Inl e"
  shows "previousWatermark components st = 0 \<and>
         queries (new_sync env components st) = [getNewBugs_query components 0] \<and>
         Advanced (getNewBugs_query components 0) =
           [\<lparr>Field = ''creation_ts'', Op = ''greaterthaneq'', Value = ''-24h''\<rparr>] \<and>
         (\<forall>n. n \<noteq> 0 \<longrightarrow>
            Advanced (getNewBugs_query components n) =
              [\<lparr>Field = ''bug_id'', Op = ''greaterthan'', Value = Itoa n\<rparr>]) \<and>
         returned (new_sync env components st) =
           (case tracker env (getNewBugs_query components 0) of
              Inl err \<Rightarrow> Some err
            | Inr found \<Rightarrow> setFailure env) \<and>
         persistCalls (new_sync env components st) =
           (case tracker env (getNewBugs_query components 0) of
              Inl err \<Rightarrow> [(stateKeyOf components, Itoa 0)]
            | Inr found \<Rightarrow>
                [(stateKeyOf components, Itoa (Max (insert 0 (ID ` set (take 52 found)))))])"
proof -
  from assms have prev: "previousWatermark components st = 0"
    by (simp add: previousWatermark_def parseState_def)
  show ?thesis
  proof (cases "tracker env (getNewBugs_query components 0)")
    case (Inl err)
    with assms(1) prev show ?thesis
      by (simp add: new_sync_tracker_failed) (simp add: getNewBugs_query_def)
  next
    case (Inr found)
    with assms(1) prev show ?thesis
      by (simp add: new_sync_tracker_answered) (simp add: getNewBugs_query_def)
  qed
qed

theorem unparsable_state_restarts_witness:
  "Atoi ''not-a-number'' = Inl ErrSyntax \<and>
   queries (new_sync (trackerFinds threeBugs) [''etcd'']
              [stateKeyOf [''etcd''] \<mapsto> ''not-a-number'']) =
     [getNewBugs_query [''etcd''] 0] \<and>
   returned (new_sync (trackerFinds threeBugs) [''etcd'']
               [stateKeyOf [''etcd''] \<mapsto> ''not-a-number'']) = None \<and>
   persistCalls (new_sync (trackerFinds threeBugs) [''etcd'']
                   [stateKeyOf [''etcd''] \<mapsto> ''not-a-number'']) =
     [(stateKeyOf [''etcd''], ''75'')]"
proof -
  have a: "Atoi ''not-a-number'' = Inl ErrSyntax"
    by (simp add: Atoi_def digitValue_def upt_rec)
  have g: "getFailure (trackerFinds threeBugs) = None" "setFailure (trackerFinds threeBugs) = None"
    by (simp_all add: trackerFinds_def)
  have w: "Itoa (Max (insert 0 (ID ` set (take 52 threeBugs)))) = ''75''"
    by (simp add: threeBugs_def Itoa_def digits.simps)
  from unparsable_state_restarts [of "trackerFinds threeBugs"
      "[stateKeyOf [''etcd''] \<mapsto> ''not-a-number'']" "[''etcd'']" "''not-a-number''" ErrSyntax]
    a g w
  show ?thesis
    by (simp add: tracker_trackerFinds)
qed

text \<open>
  Claim C8 says that the persist step is attempted once in every cycle, whatever fails.
  When the read of the persisted state fails, the cycle returns that error before the
  deferred write is registered: no write is attempted.
\<close>

theorem no_persist_after_failed_read:
  "persistCalls (new_sync storeDown [''etcd''] [stateKeyOf [''etcd''] \<mapsto> ''50'']) = [] \<and>
   returned (new_sync storeDown [''etcd''] [stateKeyOf [''etcd''] \<mapsto> ''50'']) =
     Some (ExternalError ''store unavailable'')"
  by (simp add: new_sync_read_failed storeDown_def)

text \<open>
  Claim C8, amended. In every cycle whose read of the persisted state succeeds, the write
  is attempted exactly once, at the end, whether or not the tracker failed, and it takes
  effect unless the write itself fails; the cycle returns the tracker's error if there is
  one, else the error of the write, else none. When the read fails, the cycle returns the
  read error, attempts no write and leaves the store as it was.
\<close>

theorem persist_once_after_read:
  "(getFailure env = None \<longrightarrow>
      (\<exists>lastID. persistCalls (new_sync env components st) =
                   [(stateKeyOf components, Itoa lastID)] \<and>
                 store (new_sync env components st) =
                   (case setFailure env of
                      None \<Rightarrow> st(stateKeyOf components \<mapsto> Itoa lastID)
                    | Some e \<Rightarrow> st)) \<and>
      returned (new_sync env components st) =
        (case tracker env (getNewBugs_query components (previousWatermark components st)) of
           Inl err \<Rightarrow> Some err
         | Inr found \<Rightarrow> setFailure env)) \<and>
   (\<forall>e. getFailure env = Some e \<longrightarrow>
      persistCalls (new_sync env components st) = [] \<and>
      store (new_sync env components st) = st \<and>
      returned (new_sync env components st) = Some e)"
proof (cases "getFailure env")
  case None
  show ?thesis
  proof (cases "tracker env (getNewBugs_query components (previousWatermark components st))")
    case (Inl err)
    with None show ?thesis
      by (simp add: new_sync_tracker_failed)
        (rule exI [of _ "previousWatermark components st"], simp)
  next
    case (Inr found)
    with None show ?thesis
      by (simp add: new_sync_tracker_answered)
        (rule exI [of _ "Max (insert (previousWatermark components st) (ID ` set (take 52 found)))"],
          simp)
  qed
next
  case (Some e)
  then show ?thesis
    by (simp add: new_sync_read_failed)
qed

theorem persist_once_after_read_witness:
  "persistCalls (new_sync trackerDown [''etcd''] [stateKeyOf [''etcd''] \<mapsto> ''50'']) =
     [(stateKeyOf [''etcd''], ''50'')] \<and>
   returned (new_sync trackerDown [''etcd''] [stateKeyOf [''etcd''] \<mapsto> ''50'']) =
     Some (ExternalError ''tracker unavailable'') \<and>
   persistCalls (new_sync storeDown [''etcd''] [stateKeyOf [''etcd''] \<mapsto> ''50'']) = []"
proof -
  let ?st = "[stateKeyOf [''etcd''] \<mapsto> ''50'']"
  have prev: "previousWatermark [''etcd''] ?st = 50"
    by (simp add: previousWatermark_def parseState_def Atoi_def digitValue_def upt_rec)
  have i: "Itoa 50 = ''50''"
    by (simp add: Itoa_def digits.simps)
  have c: "persistCalls (new_sync trackerDown [''etcd''] ?st) = [(stateKeyOf [''etcd''], Itoa 50)]"
    by (simp add: new_sync_tracker_failed trackerDown_def prev)
  from persist_once_after_read [of trackerDown "[''etcd'']" ?st]
    persist_once_after_read [of storeDown "[''etcd'']" ?st] c
  show ?thesis
    by (simp add: trackerDown_def storeDown_def prev i)
qed

section \<open>Verification: the escalation quota\<close>

lemma bitLength_le: "n < 2 ^ k \<Longrightarrow> bitLength n \<le> k"
proof (induction k arbitrary: n)
  case 0
  then show ?case by (simp add: bitLength.simps)
next
  case (Suc k)
  show ?case
  proof (cases "n = 0")
    case True
    then show ?thesis by (simp add: bitLength.simps)
  next
    case False
    from Suc.prems have "n div 2 < 2 ^ k" by simp
    then have "bitLength (n div 2) \<le> k" by (rule Suc.IH)
    with False show ?thesis by (subst bitLength.simps) simp
  qed
qed

lemma bitLength_gt: "2 ^ k \<le> n \<Longrightarrow> k < bitLength n"
proof (induction k arbitrary: n)
  case 0
  then show ?case by (subst bitLength.simps) simp
next
  case (Suc k)
  have "0 < (2::nat) ^ k" by simp
  moreover from Suc.prems have "2 * 2 ^ k \<le> n" by simp
  ultimately have "2 ^ k \<le> n div 2" "n \<noteq> 0" by arith+
  with Suc.IH [of "n div 2"] show ?case by (subst bitLength.simps) simp
qed

lemma bitLength_le_iff: "bitLength n \<le> k \<longleftrightarrow> n < 2 ^ k"
  using bitLength_le [of n k] bitLength_gt [of k n] by (auto simp: not_le [symmetric])

text \<open>
  The core of the rounding argument. \<open>P\<close> is the exact product of the team size \<open>n\<close> and
  the mantissa of 0.2, so that \<open>5 * P = n * 2 ^ 54 + n\<close>; it is rounded at bit \<open>s\<close> and
  then truncated at bit 54.
\<close>

lemma round_to_fifth:
  fixes P n s t :: nat
  assumes st: "s + t = 54" and s1: "1 \<le> s" and s52: "s \<le> 52"
    and P: "5 * P = n * 2 ^ 54 + n"
    and n: "n < 3 * 2 ^ 51"
  shows "(if 2 ^ s < 2 * (P mod 2 ^ s) \<or> (2 * (P mod 2 ^ s) = 2 ^ s \<and> odd (P div 2 ^ s))
          then P div 2 ^ s + 1 else P div 2 ^ s) div 2 ^ t = n div 5"
proof -
  define A :: nat where "A = 2 ^ s"
  define B :: nat where "B = 2 ^ t"
  define q where "q = P div A"
  define r where "r = P mod A"
  define k where "k = n div 5"
  define q' where "q' = (if A < 2 * r \<or> (2 * r = A \<and> odd q) then q + 1 else q)"
  have AB: "A * B = 18014398509481984"
    using st by (simp add: A_def B_def power_add [symmetric])
  have Apos: "0 < A" and Bpos: "0 < B"
    by (simp_all add: A_def B_def)
  have "A \<le> 2 ^ 52"
    unfolding A_def using s52 by (intro power_increasing) simp_all
  then have A52: "A \<le> 4503599627370496" by simp
  have Pqr: "P = q * A + r" and rA: "r < A"
    using Apos by (simp_all add: q_def r_def)
  have P': "5 * P = n * 18014398509481984 + n"
    using P by simp
  have n': "n < 6755399441055744"
    using n by simp
  have k5: "5 * k \<le> n" "n \<le> 5 * k + 4"
    by (simp_all add: k_def)
  have lower: "k * B \<le> q"
  proof -
    have "5 * (k * 18014398509481984) \<le> 5 * P"
      using k5 P' by simp
    then have "k * (B * A) \<le> P"
      using AB by (simp add: mult.commute)
    then have "k * B * A \<le> P" by (simp only: mult.assoc)
    then show ?thesis
      using Apos by (simp add: q_def less_eq_div_iff_mult_less_eq)
  qed
  have qlt: "q < (k + 1) * B"
  proof -
    have "5 * P < 5 * ((k + 1) * 18014398509481984)"
      using k5 P' n' by simp
    then have "P < (k + 1) * (B * A)"
      using AB by (simp add: mult.commute)
    then have "P < (k + 1) * B * A" by (simp only: mult.assoc)
    then show ?thesis
      using Apos by (simp add: q_def div_less_iff_less_mult)
  qed
  have upper: "q' < (k + 1) * B"
  proof (rule ccontr)
    assume "\<not> q' < (k + 1) * B"
    with qlt have up: "q' = q + 1" and eq: "q + 1 = (k + 1) * B"
      by (auto simp: q'_def split: if_splits)
    from up have "A \<le> 2 * r"
      by (auto simp: q'_def split: if_splits)
    then have "2 * (q * A) + A \<le> 2 * P"
      using Pqr by simp
    moreover have "2 * (q * A) + 2 * A = 2 * ((k + 1) * 18014398509481984)"
    proof -
      have "2 * (q * A) + 2 * A = 2 * ((q + 1) * A)" by (simp add: algebra_simps)
      also have "\<dots> = 2 * ((k + 1) * (B * A))" by (simp only: eq mult.assoc)
      also have "\<dots> = 2 * ((k + 1) * 18014398509481984)"
        using AB by (simp add: mult.commute)
      finally show ?thesis .
    qed
    ultimately have "2 * ((k + 1) * 18014398509481984) \<le> 2 * P + A"
      by simp
    then have "10 * ((k + 1) * 18014398509481984) \<le> 10 * P + 5 * A"
      by simp
    with P' k5 A52 n' show False
      by simp
  qed
  have "q' div B = k"
    using lower upper by (intro div_nat_eqI) (auto simp: q'_def mult.commute split: if_splits)
  then show ?thesis
    unfolding q'_def q_def r_def A_def B_def k_def .
qed

lemma bitLength_product:
  assumes "n < 3 * 2 ^ 51"
  shows "bitLength (n * 3602879701896397) \<le> 105"
proof -
  from assms have "n * 3602879701896397 < 2 ^ 105"
    by simp
  then show ?thesis
    by (rule bitLength_le)
qed

lemma float64_of_small_nat: "n < 2 ^ 53 \<Longrightarrow> float64_of_nat n = \<lparr>mant = n, expo = 0\<rparr>"
  by (simp add: float64_of_nat_def round53_def bitLength_le)

lemma fifth_of_small:
  assumes "n < 3 * 2 ^ 51"
  shows "int_of_float64 (float64_mul (float64_of_nat n) float64_0_2) = int (n div 5)"
proof -
  let ?P = "n * 3602879701896397"
  from assms have small: "n < 2 ^ 53" by simp
  have P5: "5 * ?P = n * 2 ^ 54 + n" by simp
  show ?thesis
  proof (cases "bitLength ?P \<le> 53")
    case True
    then have "?P < 2 ^ 53"
      by (simp only: bitLength_le_iff)
    then have "n < 5" "?P div 2 ^ 54 = 0"
      by simp_all
    with True show ?thesis
      by (simp add: float64_of_small_nat [OF small] float64_mul_def float64_0_2_def
          round53_def int_of_float64_def)
  next
    case False
    define s where "s = bitLength ?P - 53"
    define Q where "Q =
      (if 2 ^ s < 2 * (?P mod 2 ^ s) \<or> (2 * (?P mod 2 ^ s) = 2 ^ s \<and> odd (?P div 2 ^ s))
       then ?P div 2 ^ s + 1 else ?P div 2 ^ s)"
    from False bitLength_product [OF assms] have s: "1 \<le> s" "s \<le> 52"
      by (simp_all add: s_def)
    then have st: "s + (54 - s) = 54" by simp
    have "Q div 2 ^ (54 - s) = n div 5"
      unfolding Q_def by (rule round_to_fifth [OF st s P5 assms])
    moreover from False have "round53 ?P (- 54) = \<lparr>mant = Q, expo = - 54 + int s\<rparr>"
      by (simp add: round53_def Let_def s_def Q_def)
    moreover from s have "- 54 + int s < 0" "nat (- (- 54 + int s)) = 54 - s"
      by simp_all
    then have "int_of_float64 \<lparr>mant = Q, expo = - 54 + int s\<rparr> = int (Q div 2 ^ (54 - s))"
      by (simp only: int_of_float64_def float64.simps not_le [symmetric] if_False)
    ultimately show ?thesis
      by (simp add: float64_of_small_nat [OF small] float64_mul_def float64_0_2_def)
  qed
qed

lemma floor_fifth: "\<lfloor>0.2 * real n\<rfloor> = int (n div 5)"
proof -
  have "0.2 * real n = real n / real 5" by simp
  then show ?thesis
    by (simp only: floor_divide_of_nat_eq)
qed

lemma quota_floor:
  assumes "teamSize < 3 * 2 ^ 51"
  shows "maxEscalationsFor teamSize = max 1 \<lfloor>0.2 * real teamSize\<rfloor>"
proof -
  have "maxEscalationsFor teamSize = max_go 1 (int (teamSize div 5))"
    by (simp only: maxEscalationsFor_def fifth_of_small [OF assms])
  also have "\<dots> = max 1 (int (teamSize div 5))"
    by (simp add: max_go_def max_def)
  also have "int (teamSize div 5) = \<lfloor>0.2 * real teamSize\<rfloor>"
    by (simp only: floor_fifth)
  finally show ?thesis .
qed

text \<open>
  The bound is sharp: at \<open>3 * 2 ^ 51\<close> members (more than any process can hold) the
  binary64 product rounds up to the next integer.
\<close>

lemma quota_bound_is_sharp:
  "maxEscalationsFor (3 * 2 ^ 51) = 1351079888211149 \<and>
   max 1 \<lfloor>0.2 * real (3 * 2 ^ 51 :: nat)\<rfloor> = 1351079888211148"
  by (simp add: maxEscalationsFor_def float64_mul_def float64_of_nat_def float64_0_2_def
      round53_def bitLength.simps int_of_float64_def max_go_def Let_def)

text \<open>
  Claim C5. For every lead whose expanded team has fewer than \<open>3 * 2 ^ 51\<close> members, the
  quota the report computes in binary64 is \<open>max 1 \<lfloor>0.2 * size\<rfloor>\<close>; the team's line is
  the over-quota line (with the siren marker and the quota) exactly when the number of
  issues attributed to the lead exceeds that quota, and the plain line otherwise. Teams of
  0, 1, 10 and 20 members have the quotas 1, 1, 2 and 4.
\<close>

theorem lead_quota:
  assumes "card (teamOf env cfg lead) < 3 * 2 ^ 51"
  shows "maxEscalationsFor (card (teamOf env cfg lead)) =
           max 1 \<lfloor>0.2 * real (card (teamOf env cfg lead))\<rfloor> \<and>
         leadLines env cfg lead bugs =
           (if int (length bugs) > max 1 \<lfloor>0.2 * real (card (teamOf env cfg lead))\<rfloor>
            then '':red-siren: '' @ lead @ '''s team with '' @ Itoa (int (length bugs)) @
                 '' bugs, above the quota of '' @
                 Itoa (max 1 \<lfloor>0.2 * real (card (teamOf env cfg lead))\<rfloor>)
            else lead @ '''s team with '' @ Itoa (int (length bugs)) @ '' bug'') #
           map (\<lambda>b. ''> '' @ GetBugURL env b @ '' '' @ Bug.Status b @ '' @ '' @ AssignedTo b @
                     '': '' @ Summary b) bugs \<and>
         maxEscalationsFor 0 = 1 \<and> maxEscalationsFor 1 = 1 \<and>
         maxEscalationsFor 10 = 2 \<and> maxEscalationsFor 20 = 4"
proof -
  have "maxEscalationsFor 0 = 1" "maxEscalationsFor 1 = 1"
    "maxEscalationsFor 10 = 2" "maxEscalationsFor 20 = 4"
    by (simp_all add: quota_floor)
  then show ?thesis
    by (simp add: leadLines_def Let_def quota_floor [OF assms])
qed

theorem lead_quota_witness:
  "card (teamOf plainEnv sevenDevConfig ''lead@example.com'') = 7 \<and>
   maxEscalationsFor (card (teamOf plainEnv sevenDevConfig ''lead@example.com'')) = 1 \<and>
   hd (leadLines plainEnv sevenDevConfig ''lead@example.com'' twoEscalations) =
     '':red-siren: lead@example.com's team with 2 bugs, above the quota of 1'' \<and>
   hd (leadLines plainEnv sevenDevConfig ''lead@example.com'' [escalatedHighBug]) =
     ''lead@example.com's team with 1 bug''"
proof -
  have c: "card (teamOf plainEnv sevenDevConfig ''lead@example.com'') = 7"
    by (simp add: teamOf_def plainEnv_def sevenDevConfig_def)
  have i: "Itoa 1 = ''1''" "Itoa 2 = ''2''"
    by (simp_all add: Itoa_def digits.simps)
  have l: "length twoEscalations = 2"
    by (simp add: twoEscalations_def)
  from lead_quota [of plainEnv sevenDevConfig "''lead@example.com''" twoEscalations]
    lead_quota [of plainEnv sevenDevConfig "''lead@example.com''" "[escalatedHighBug]"]
  show ?thesis
    by (simp add: c i l)
qed

end
